theory Spec2Isabelle
  imports Complex_Main
begin

section \<open>Python strings\<close>

text \<open>
  The input text of both tools is a Python \<open>str\<close>. It is modelled as a \<open>string\<close> whose
  characters are the code points U+0000 .. U+00FF, each \<open>char\<close> being its code point; the
  character predicates below are the ones Python's \<open>str\<close> methods and the \<open>re\<close> module
  use, restricted to that range. Texts with code points beyond U+00FF are outside the model.
\<close>

definition code_point :: "char \<Rightarrow> nat" where
  "code_point c = of_char c"

definition isspace :: "char \<Rightarrow> bool" where
  \<comment> \<open>\<open>str.isspace\<close>, the separator set of \<open>str.split()\<close>, and the class \<open>\s\<close>:
      TAB LF VT FF CR, FS GS RS US, SPACE, NEL (U+0085), NBSP (U+00A0).\<close>
  "isspace c = (let n = code_point c in
     (9 \<le> n \<and> n \<le> 13) \<or> (28 \<le> n \<and> n \<le> 32) \<or> n = 133 \<or> n = 160)"

definition isdecimal :: "char \<Rightarrow> bool" where
  \<comment> \<open>\<open>str.isdecimal\<close> and the class \<open>\d\<close>: below U+0100 only the digits 0-9.\<close>
  "isdecimal c = (let n = code_point c in 48 \<le> n \<and> n \<le> 57)"

definition isdigit_char :: "char \<Rightarrow> bool" where
  \<comment> \<open>\<open>str.isdigit\<close> on one character: the decimals and the superscripts 2, 3, 1
      (U+00B2, U+00B3, U+00B9).\<close>
  "isdigit_char c = (let n = code_point c in isdecimal c \<or> n = 178 \<or> n = 179 \<or> n = 185)"

definition isnumeric :: "char \<Rightarrow> bool" where
  \<comment> \<open>\<open>str.isnumeric\<close>: the digits and the fractions U+00BC .. U+00BE.\<close>
  "isnumeric c = (let n = code_point c in isdigit_char c \<or> (188 \<le> n \<and> n \<le> 190))"

definition isupper :: "char \<Rightarrow> bool" where
  \<comment> \<open>The characters \<open>str.lower\<close> changes: A-Z, and U+00C0 .. U+00DE but U+00D7.\<close>
  "isupper c = (let n = code_point c in
     (65 \<le> n \<and> n \<le> 90) \<or> (192 \<le> n \<and> n \<le> 222 \<and> n \<noteq> 215))"

definition isalpha :: "char \<Rightarrow> bool" where
  \<comment> \<open>\<open>str.isalpha\<close>: A-Z, a-z, U+00AA, U+00B5, U+00BA, U+00C0 .. U+00FF but
      U+00D7 and U+00F7.\<close>
  "isalpha c = (let n = code_point c in
     (65 \<le> n \<and> n \<le> 90) \<or> (97 \<le> n \<and> n \<le> 122) \<or> n = 170 \<or> n = 181 \<or> n = 186 \<or>
     (192 \<le> n \<and> n \<noteq> 215 \<and> n \<noteq> 247))"

definition isword :: "char \<Rightarrow> bool" where
  \<comment> \<open>The class \<open>\w\<close> of a \<open>str\<close> pattern: alphanumeric (alphabetic, decimal, digit
      or numeric) or the underscore.\<close>
  "isword c = (isalpha c \<or> isdecimal c \<or> isdigit_char c \<or> isnumeric c \<or> c = CHR ''_'')"

definition lower_char :: "char \<Rightarrow> char" where
  "lower_char c = (if isupper c then char_of (code_point c + 32) else c)"

definition lower :: "string \<Rightarrow> string" where
  \<comment> \<open>\<open>str.lower()\<close>\<close>
  "lower s = map lower_char s"

fun split_from :: "string \<Rightarrow> string \<Rightarrow> string list" where
  \<comment> \<open>\<open>str.split()\<close> with the word read so far as first argument.\<close>
  "split_from w [] = (if w = [] then [] else [w])"
| "split_from w (c # cs) =
     (if isspace c then (if w = [] then split_from [] cs else w # split_from [] cs)
      else split_from (w @ [c]) cs)"

definition split :: "string \<Rightarrow> string list" where
  \<comment> \<open>\<open>str.split()\<close> without arguments: the maximal runs of non-whitespace.\<close>
  "split s = split_from [] s"

fun join :: "string \<Rightarrow> string list \<Rightarrow> string" where
  \<comment> \<open>\<open>sep.join(xs)\<close>\<close>
  "join sep [] = []"
| "join sep [x] = x"
| "join sep (x # y # ys) = x @ sep @ join sep (y # ys)"

fun startswith :: "string \<Rightarrow> string \<Rightarrow> bool" where
  \<comment> \<open>\<open>s.startswith(w)\<close>\<close>
  "startswith s [] = True"
| "startswith [] (c # w) = False"
| "startswith (x # s) (c # w) = (x = c \<and> startswith s w)"

fun contains :: "string \<Rightarrow> string \<Rightarrow> bool" where
  \<comment> \<open>\<open>w in s\<close>: \<open>w\<close> is a substring of \<open>s\<close>.\<close>
  "contains w [] = (w = [])"
| "contains w (x # s) = (startswith (x # s) w \<or> contains w s)"

fun count_from :: "string \<Rightarrow> nat \<Rightarrow> string \<Rightarrow> nat" where
  \<comment> \<open>\<open>s.count(w)\<close> for a non-empty \<open>w\<close>: the occurrences that do not overlap, found
      from the left; the second argument is the number of characters still covered by
      the occurrence counted last.\<close>
  "count_from w k [] = 0"
| "count_from w k (x # s) =
     (if 0 < k then count_from w (k - 1) s
      else if startswith (x # s) w then 1 + count_from w (length w - 1) s
      else count_from w 0 s)"

definition count :: "string \<Rightarrow> string \<Rightarrow> nat" where
  "count s w = count_from w 0 s"

definition replace_commas :: "string \<Rightarrow> string" where
  \<comment> \<open>\<open>s.replace(",", "")\<close>\<close>
  "replace_commas s = filter (\<lambda>c. c \<noteq> CHR '','') s"

definition isdigit :: "string \<Rightarrow> bool" where
  \<comment> \<open>\<open>str.isdigit()\<close>: not empty and every character a digit.\<close>
  "isdigit s = (s \<noteq> [] \<and> list_all isdigit_char s)"

section \<open>Regular expressions\<close>

text \<open>
  The fragment of Python's \<open>re\<close> that the four patterns of the tools use, compiled with
  \<open>re.IGNORECASE\<close>: literals, character sets, sequence, alternation, the greedy
  \<open>?\<close>, the lazy \<open>*?\<close> and the greedy \<open>+\<close> on a character set, and capturing
  groups (never nested in an alternative). \<open>re\<close> is a backtracking matcher: of all the
  ways a pattern can match at a position it takes the first in its order of preference.
  \<open>matches\<close> lists these ways in that order, each as the groups captured and the text
  left over.
\<close>

datatype char_class = Word | Space | Digit | Chars string

datatype regex =
    Eps
  | Lit char
  | Set "char_class list"
  | Seq regex regex
  | Alt regex regex
  | Opt regex
  | LazyStar "char_class list"
  | GreedyPlus "char_class list"
  | Group regex

fun in_class :: "char \<Rightarrow> char_class \<Rightarrow> bool" where
  "in_class c Word = isword c"
| "in_class c Space = isspace c"
| "in_class c Digit = isdecimal c"
| "in_class c (Chars s) = (lower_char c \<in> set (lower s))"

definition in_set :: "char_class list \<Rightarrow> char \<Rightarrow> bool" where
  "in_set cs c = list_ex (in_class c) cs"

fun lazy_star :: "(char \<Rightarrow> bool) \<Rightarrow> string \<Rightarrow> string list" where
  \<comment> \<open>What \<open>[...]*?\<close> can leave over, the fewest characters taken first.\<close>
  "lazy_star P [] = [[]]"
| "lazy_star P (c # s) = (c # s) # (if P c then lazy_star P s else [])"

fun greedy_plus :: "(char \<Rightarrow> bool) \<Rightarrow> string \<Rightarrow> string list" where
  \<comment> \<open>What \<open>[...]+\<close> can leave over, the most characters taken first.\<close>
  "greedy_plus P [] = []"
| "greedy_plus P (c # s) = (if P c then greedy_plus P s @ [s] else [])"

fun matches :: "regex \<Rightarrow> string \<Rightarrow> (string list \<times> string) list" where
  "matches Eps s = [([], s)]"
| "matches (Lit a) s =
     (case s of [] \<Rightarrow> [] | c # r \<Rightarrow> if lower_char c = lower_char a then [([], r)] else [])"
| "matches (Set cs) s =
     (case s of [] \<Rightarrow> [] | c # r \<Rightarrow> if in_set cs c then [([], r)] else [])"
| "matches (Seq a b) s =
     concat (map (\<lambda>(g1, s1). map (\<lambda>(g2, s2). (g1 @ g2, s2)) (matches b s1)) (matches a s))"
| "matches (Alt a b) s = matches a s @ matches b s"
| "matches (Opt a) s = matches a s @ [([], s)]"
| "matches (LazyStar cs) s = map (Pair []) (lazy_star (in_set cs) s)"
| "matches (GreedyPlus cs) s = map (Pair []) (greedy_plus (in_set cs) s)"
| "matches (Group a) s =
     map (\<lambda>(g, r). (take (length s - length r) s # g, r)) (matches a s)"

fun findall_from :: "regex \<Rightarrow> nat \<Rightarrow> string \<Rightarrow> string list list" where
  \<comment> \<open>\<open>re.findall\<close>: the matches that do not overlap, found from the left, each as the
      list of its groups. The second argument is the number of characters still covered
      by the match found last; the scan goes on behind it.\<close>
  "findall_from r k [] = []"
| "findall_from r k (c # s) =
     (if 0 < k then findall_from r (k - 1) s
      else case matches r (c # s) of
             [] \<Rightarrow> findall_from r 0 s
           | (g, rest) # _ \<Rightarrow> g # findall_from r (length s - length rest) s)"

definition findall :: "regex \<Rightarrow> string \<Rightarrow> string list list" where
  "findall r s = findall_from r 0 s"

definition group :: "nat \<Rightarrow> string list \<Rightarrow> string" where
  \<comment> \<open>Group \<open>i\<close> of a match, counted from 0 as the tuples of \<open>findall\<close> are indexed.\<close>
  "group i g = (if i < length g then g ! i else [])"

fun lit :: "string \<Rightarrow> regex" where
  \<comment> \<open>A word of the pattern: its characters in sequence.\<close>
  "lit [] = Eps"
| "lit (c # w) = Seq (Lit c) (lit w)"

definition number_tail :: regex where
  \<comment> \<open>The common tail \<open>[\w\s]*?\$?([\d,.]+)\<close>\<close>
  "number_tail =
     Seq (LazyStar [Word, Space])
       (Seq (Opt (Lit (CHR ''$''))) (Group (GreedyPlus [Digit, Chars '',.''])))"

definition revenue_pattern :: regex where
  \<comment> \<open>\<open>revenue[s]?\s+[\w\s]*?\$?([\d,.]+)\<close>\<close>
  "revenue_pattern =
     Seq (lit ''revenue'') (Seq (Opt (Set [Chars ''s''])) (Seq (GreedyPlus [Space]) number_tail))"

definition profit_pattern :: regex where
  \<comment> \<open>\<open>(net income|profit)[\w\s]*?\$?([\d,.]+)\<close>\<close>
  "profit_pattern = Seq (Group (Alt (lit ''net income'') (lit ''profit''))) number_tail"

definition debt_pattern :: regex where
  \<comment> \<open>\<open>(debt|liabilities)[\w\s]*?\$?([\d,.]+)\<close>\<close>
  "debt_pattern = Seq (Group (Alt (lit ''debt'') (lit ''liabilities''))) number_tail"

definition asset_pattern :: regex where
  \<comment> \<open>\<open>(asset[s]?)[\w\s]*?\$?([\d,.]+)\<close>\<close>
  "asset_pattern =
     Seq (Group (Seq (lit ''asset'') (Opt (Set [Chars ''s''])))) number_tail"

section \<open>Errors\<close>

datatype error = ZeroDivisionError | StatisticsError | ValueError

definition and_then :: "error + 'a \<Rightarrow> ('a \<Rightarrow> error + 'b) \<Rightarrow> error + 'b" where
  \<comment> \<open>Sequencing: an exception raised by the first computation ends the run.\<close>
  "and_then m f = (case m of Inl e \<Rightarrow> Inl e | Inr x \<Rightarrow> f x)"

section \<open>Python floats\<close>

text \<open>
  A Python \<open>float\<close> is an IEEE 754 binary64 number. Every number of the two tools is
  non-negative (it is parsed from a string of digits, or is a mean, quotient or product
  of such numbers), so the model has the non-negative finite values, as the rationals
  they are, positive infinity and NaN. Every operation rounds its exact result to the
  nearest representable value, ties to the even significand.
\<close>

datatype pyfloat = Finite rat | Infinity | NaN

function bit_length :: "int \<Rightarrow> nat" where
  \<comment> \<open>\<open>int.bit_length()\<close> of a non-negative integer.\<close>
  "bit_length n = (if n \<le> 0 then 0 else Suc (bit_length (n div 2)))"
  by pat_completeness auto
termination
  by (relation "measure nat") auto

declare bit_length.simps [simp del]

definition pow2 :: "int \<Rightarrow> rat" where
  "pow2 e = (if 0 \<le> e then 2 ^ nat e else 1 / 2 ^ nat (- e))"

definition floor_log2 :: "rat \<Rightarrow> int" where
  \<comment> \<open>For \<open>0 < q\<close>: the exponent \<open>e\<close> with \<open>2 ^ e \<le> q < 2 ^ (e + 1)\<close>.\<close>
  "floor_log2 q =
     (let (a, b) = quotient_of q;
          d = int (bit_length a) - int (bit_length b)
      in if pow2 d \<le> q then d else d - 1)"

definition round_half_even :: "rat \<Rightarrow> int" where
  "round_half_even x =
     (let f = \<lfloor>x\<rfloor>; r = x - of_int f
      in if r < 1 / 2 then f else if 1 / 2 < r then f + 1 else if even f then f else f + 1)"

definition round_double :: "rat \<Rightarrow> pyfloat" where
  \<comment> \<open>The binary64 value nearest to \<open>q \<ge> 0\<close>: 53 significant bits, least exponent
      -1022 (below it the subnormal numbers, multiples of \<open>2 ^ -1074\<close>), greatest
      exponent 1023; a result that would be \<open>2 ^ 1024\<close> or more is infinity.
      \<open>9007199254740992\<close> is \<open>2 ^ 53\<close>.\<close>
  "round_double q =
     (if q = 0 then Finite 0
      else let e = max (floor_log2 q) (- 1022);
               ulp = pow2 (e - 52);
               m = round_half_even (q / ulp)
           in if 1024 \<le> e \<or> (e = 1023 \<and> 9007199254740992 \<le> m) then Infinity
              else Finite (of_int m * ulp))"

definition digit_value :: "char \<Rightarrow> int" where
  "digit_value c = of_char c - 48"

definition decimal_value :: "string \<Rightarrow> int" where
  \<comment> \<open>The number a string of decimal digits denotes.\<close>
  "decimal_value s = foldl (\<lambda>n c. 10 * n + digit_value c) 0 s"

definition py_float :: "string \<Rightarrow> error + pyfloat" where
  \<comment> \<open>\<open>float(s)\<close> on a string that passes \<open>str.isdigit()\<close>, the only strings the tools
      convert: the number a string of decimal digits denotes, correctly rounded, and
      \<open>ValueError\<close> for a string that has a superscript digit.\<close>
  "py_float s =
     (if s \<noteq> [] \<and> list_all isdecimal s then Inr (round_double (of_int (decimal_value s)))
      else Inl ValueError)"

fun the_rat :: "pyfloat \<Rightarrow> rat" where
  "the_rat (Finite q) = q"
| "the_rat Infinity = 0"
| "the_rat NaN = 0"

definition mean :: "pyfloat list \<Rightarrow> error + pyfloat" where
  \<comment> \<open>\<open>statistics.mean\<close>: \<open>StatisticsError\<close> on no data; the exact sum of finite data
      divided by their number and rounded once; the sum of the non-finite data when
      there are any.\<close>
  "mean xs =
     (if xs = [] then Inl StatisticsError
      else if NaN \<in> set xs then Inr NaN
      else if Infinity \<in> set xs then Inr Infinity
      else Inr (round_double (sum_list (map the_rat xs) / of_nat (length xs))))"

fun truediv :: "pyfloat \<Rightarrow> pyfloat \<Rightarrow> error + pyfloat" where
  \<comment> \<open>\<open>x / y\<close>\<close>
  "truediv x (Finite b) =
     (if b = 0 then Inl ZeroDivisionError
      else case x of Finite a \<Rightarrow> Inr (round_double (a / b))
                   | Infinity \<Rightarrow> Inr Infinity
                   | NaN \<Rightarrow> Inr NaN)"
| "truediv x Infinity =
     (case x of Finite a \<Rightarrow> Inr (Finite 0) | Infinity \<Rightarrow> Inr NaN | NaN \<Rightarrow> Inr NaN)"
| "truediv x NaN = Inr NaN"

fun mul :: "pyfloat \<Rightarrow> pyfloat \<Rightarrow> pyfloat" where
  \<comment> \<open>\<open>x * y\<close>\<close>
  "mul (Finite a) (Finite b) = round_double (a * b)"
| "mul (Finite a) Infinity = (if a = 0 then NaN else Infinity)"
| "mul Infinity (Finite b) = (if b = 0 then NaN else Infinity)"
| "mul Infinity Infinity = Infinity"
| "mul NaN y = NaN"
| "mul x NaN = NaN"

fun gt :: "pyfloat \<Rightarrow> pyfloat \<Rightarrow> bool" where
  \<comment> \<open>\<open>x > y\<close>: false when either side is NaN.\<close>
  "gt (Finite a) (Finite b) = (b < a)"
| "gt Infinity (Finite b) = True"
| "gt x y = False"

definition lt :: "pyfloat \<Rightarrow> pyfloat \<Rightarrow> bool" where
  \<comment> \<open>\<open>x < y\<close>\<close>
  "lt x y = gt y x"

definition truthy :: "pyfloat \<Rightarrow> bool" where
  \<comment> \<open>The truth value of a float in a condition: false for zero only.\<close>
  "truthy x = (x \<noteq> Finite 0)"

subsection \<open>Formatting\<close>

definition digit_char :: "int \<Rightarrow> char" where
  "digit_char d = char_of (48 + d)"

function digits :: "int \<Rightarrow> string" where
  \<comment> \<open>\<open>str(n)\<close> for a non-negative integer.\<close>
  "digits n = (if n < 10 then [digit_char n] else digits (n div 10) @ [digit_char (n mod 10)])"
  by pat_completeness auto
termination
  by (relation "measure nat") auto

declare digits.simps [simp del]

fun thousands :: "string \<Rightarrow> string" where
  \<comment> \<open>The grouping option \<open>,\<close> of a format: a comma before every group of three
      digits, counted from the right.\<close>
  "thousands s =
     (if length s \<le> 3 then s
      else thousands (take (length s - 3) s) @ '','' @ drop (length s - 3) s)"

declare thousands.simps [simp del]

definition format_2f :: "bool \<Rightarrow> pyfloat \<Rightarrow> string" where
  \<comment> \<open>The formats \<open>{x:,.2f}\<close> (first argument true) and \<open>{x:.2f}\<close>: the exact value
      rounded to two decimals, ties to even.\<close>
  "format_2f grouping x =
     (case x of
        Finite q \<Rightarrow>
          (let n = round_half_even (q * 100);
               whole = digits (n div 100)
           in (if grouping then thousands whole else whole) @ ''.'' @
              [digit_char (n mod 100 div 10), digit_char (n mod 10)])
      | Infinity \<Rightarrow> ''inf''
      | NaN \<Rightarrow> ''nan'')"

section \<open>Extraction of the amounts\<close>

fun amounts :: "string list \<Rightarrow> error + pyfloat list" where
  \<comment> \<open>\<open>[float(r.replace(",", "")) for r in rs if r.replace(",", "").isdigit()]\<close>\<close>
  "amounts [] = Inr []"
| "amounts (r # rs) =
     (if isdigit (replace_commas r)
      then and_then (py_float (replace_commas r)) (\<lambda>x.
           and_then (amounts rs) (\<lambda>xs. Inr (x # xs)))
      else amounts rs)"

definition processed_data :: "string \<Rightarrow> string" where
  \<comment> \<open>\<open>" ".join(financial_document_data.split())\<close>\<close>
  "processed_data financial_document_data = join '' '' (split financial_document_data)"

definition revenue_matches :: "string \<Rightarrow> string list" where
  \<comment> \<open>The pattern has one group: \<open>findall\<close> gives the group itself.\<close>
  "revenue_matches text = map (group 0) (findall revenue_pattern (processed_data text))"

definition profit_matches :: "string \<Rightarrow> string list" where
  \<comment> \<open>The pattern has two groups: the comprehension reads \<open>p[1]\<close>.\<close>
  "profit_matches text = map (group 1) (findall profit_pattern (processed_data text))"

definition debt_matches :: "string \<Rightarrow> string list" where
  "debt_matches text = map (group 1) (findall debt_pattern (processed_data text))"

definition asset_matches :: "string \<Rightarrow> string list" where
  "asset_matches text = map (group 1) (findall asset_pattern (processed_data text))"

definition revenues :: "string \<Rightarrow> error + pyfloat list" where
  "revenues text = amounts (revenue_matches text)"

definition profits :: "string \<Rightarrow> error + pyfloat list" where
  "profits text = amounts (profit_matches text)"

definition debts :: "string \<Rightarrow> error + pyfloat list" where
  "debts text = amounts (debt_matches text)"

definition assets :: "string \<Rightarrow> error + pyfloat list" where
  "assets text = amounts (asset_matches text)"

section \<open>The symbols of the output\<close>

text \<open>
  The lines the tools return hold symbols beyond U+00FF. An output string is written
  in UTF-8, one \<open>char\<close> a byte; a substring test on two such strings is the substring
  test on the code points they encode.
\<close>

definition bar_chart :: string where
  \<comment> \<open>U+1F4CA\<close>
  "bar_chart = [CHR 0xF0, CHR 0x9F, CHR 0x93, CHR 0x8A]"

definition scales :: string where
  \<comment> \<open>U+2696 U+FE0F\<close>
  "scales = [CHR 0xE2, CHR 0x9A, CHR 0x96, CHR 0xEF, CHR 0xB8, CHR 0x8F]"

definition check_mark :: string where
  \<comment> \<open>U+2705\<close>
  "check_mark = [CHR 0xE2, CHR 0x9C, CHR 0x85]"

definition warning :: string where
  \<comment> \<open>U+26A0 U+FE0F: the marker of medium severity\<close>
  "warning = [CHR 0xE2, CHR 0x9A, CHR 0xA0, CHR 0xEF, CHR 0xB8, CHR 0x8F]"

definition cross_mark :: string where
  \<comment> \<open>U+274C: the marker of high severity\<close>
  "cross_mark = [CHR 0xE2, CHR 0x9D, CHR 0x8C]"

definition information :: string where
  \<comment> \<open>U+2139 U+FE0F\<close>
  "information = [CHR 0xE2, CHR 0x84, CHR 0xB9, CHR 0xEF, CHR 0xB8, CHR 0x8F]"

definition pushpin :: string where
  \<comment> \<open>U+1F4CC\<close>
  "pushpin = [CHR 0xF0, CHR 0x9F, CHR 0x93, CHR 0x8C]"

definition chart_down :: string where
  \<comment> \<open>U+1F4C9\<close>
  "chart_down = [CHR 0xF0, CHR 0x9F, CHR 0x93, CHR 0x89]"

definition factory :: string where
  \<comment> \<open>U+1F3ED\<close>
  "factory = [CHR 0xF0, CHR 0x9F, CHR 0x8F, CHR 0xAD]"

definition red_circle :: string where
  \<comment> \<open>U+1F534\<close>
  "red_circle = [CHR 0xF0, CHR 0x9F, CHR 0x94, CHR 0xB4]"

definition orange_circle :: string where
  \<comment> \<open>U+1F7E0\<close>
  "orange_circle = [CHR 0xF0, CHR 0x9F, CHR 0x9F, CHR 0xA0]"

definition green_circle :: string where
  \<comment> \<open>U+1F7E2\<close>
  "green_circle = [CHR 0xF0, CHR 0x9F, CHR 0x9F, CHR 0xA2]"

definition newline :: string where
  "newline = [CHR 0x0A]"

section \<open>InvestmentTool\<close>

definition positive_keywords :: "string list" where
  "positive_keywords =
     [''growth'', ''expansion'', ''profit'', ''strong'', ''increase'', ''positive'']"

definition negative_keywords :: "string list" where
  "negative_keywords =
     [''loss'', ''decline'', ''risk'', ''decrease'', ''negative'', ''litigation'']"

definition hits :: "string list \<Rightarrow> string \<Rightarrow> nat" where
  \<comment> \<open>\<open>sum(processed_data.lower().count(word) for word in keywords)\<close>\<close>
  "hits keywords text = sum_list (map (count (lower (processed_data text))) keywords)"

definition margin_insights :: "pyfloat list \<Rightarrow> pyfloat list \<Rightarrow> string list \<Rightarrow> error + string list" where
  \<comment> \<open>Step 3, first block (lines 77-83): the insights with its three lines appended.\<close>
  "margin_insights rs ps insights =
     (if rs \<noteq> [] \<and> ps \<noteq> [] then
        and_then (mean rs) (\<lambda>avg_revenue.
        and_then (mean ps) (\<lambda>avg_profit.
        and_then (if truthy avg_revenue
                  then and_then (truediv avg_profit avg_revenue) (\<lambda>q. Inr (mul q (Finite 100)))
                  else Inr (Finite 0)) (\<lambda>profit_margin.
        Inr (insights @
          [bar_chart @ '' Average Revenue: $'' @ format_2f True avg_revenue,
           bar_chart @ '' Average Profit: $'' @ format_2f True avg_profit,
           bar_chart @ '' Profit Margin: '' @ format_2f False profit_margin @ ''%'']))))
      else Inr insights)"

definition debt_insights :: "pyfloat list \<Rightarrow> pyfloat list \<Rightarrow> string list \<Rightarrow> error + string list" where
  \<comment> \<open>Step 3, second block (lines 85-89). The guard of the division is \<open>if profits\<close>,
      the list, which the enclosing condition has made true.\<close>
  "debt_insights ds ps insights =
     (if ds \<noteq> [] \<and> ps \<noteq> [] then
        and_then (mean ds) (\<lambda>avg_debt.
        and_then (if ps \<noteq> [] then and_then (mean ps) (\<lambda>m. truediv avg_debt m)
                  else Inr (Finite 0)) (\<lambda>debt_to_income.
        Inr (insights @
          [scales @ '' Avg Debt: $'' @ format_2f True avg_debt,
           scales @ '' Debt-to-Income Ratio: '' @ format_2f False debt_to_income])))
      else Inr insights)"

definition positive_outlook :: string where
  "positive_outlook = check_mark @ '' Positive financial outlook detected.''"

definition negative_outlook :: string where
  "negative_outlook = warning @ '' Negative financial risks detected.''"

definition neutral_outlook :: string where
  "neutral_outlook = information @ '' Neutral outlook.''"

definition sentiment :: "nat \<Rightarrow> nat \<Rightarrow> string" where
  \<comment> \<open>Step 4 (lines 98-103)\<close>
  "sentiment positive_hits negative_hits =
     (if positive_hits > negative_hits then positive_outlook
      else if negative_hits > positive_hits then negative_outlook
      else neutral_outlook)"

definition margin :: "pyfloat list \<Rightarrow> pyfloat list \<Rightarrow> error + pyfloat" where
  \<comment> \<open>\<open>(statistics.mean(profits) / statistics.mean(revenues)) * 100\<close> (line 110)\<close>
  "margin ps rs =
     and_then (mean ps) (\<lambda>p. and_then (mean rs) (\<lambda>r.
     and_then (truediv p r) (\<lambda>q. Inr (mul q (Finite 100)))))"

definition recommendation :: "pyfloat list \<Rightarrow> pyfloat list \<Rightarrow> nat \<Rightarrow> nat \<Rightarrow> error + string" where
  \<comment> \<open>Step 5 (lines 108-114)\<close>
  "recommendation ps rs positive_hits negative_hits =
     (if ps \<noteq> [] \<and> rs \<noteq> [] then
        and_then (margin ps rs) (\<lambda>m.
        Inr (if gt m (Finite 15) \<and> positive_hits > negative_hits then ''Buy''
             else if lt m (Finite 5) \<or> negative_hits > positive_hits then ''Sell''
             else ''Hold''))
      else Inr ''Hold'')"

definition recommendation_line :: "string \<Rightarrow> string" where
  "recommendation_line r = pushpin @ '' Investment Recommendation: '' @ r"

definition investment_insights :: "string \<Rightarrow> error + string list" where
  \<comment> \<open>The list \<open>insights\<close> when line 118 is reached.\<close>
  "investment_insights text =
     and_then (revenues text) (\<lambda>rs.
     and_then (profits text) (\<lambda>ps.
     and_then (debts text) (\<lambda>ds.
     and_then (margin_insights rs ps []) (\<lambda>insights.
     and_then (debt_insights ds ps insights) (\<lambda>insights.
     and_then (recommendation ps rs (hits positive_keywords text) (hits negative_keywords text))
       (\<lambda>r.
     Inr (insights
          @ [sentiment (hits positive_keywords text) (hits negative_keywords text)]
          @ [recommendation_line r])))))))"

definition InvestmentTool_run :: "string \<Rightarrow> error + string" where
  \<comment> \<open>\<open>InvestmentTool._run\<close>: the string returned, or the exception raised.\<close>
  "InvestmentTool_run financial_document_data =
     and_then (investment_insights financial_document_data) (\<lambda>insights.
     Inr (if insights \<noteq> [] then join newline insights
          else ''No meaningful financial insights extracted.''))"

section \<open>RiskTool\<close>

text \<open>
  \<open>RiskTool._run\<close> is declared \<open>async\<close>: the model gives what the coroutine returns
  when it is awaited.
\<close>

definition market_risks :: "string list" where
  "market_risks =
     [''competition'', ''inflation'', ''recession'', ''regulation'', ''currency'', ''volatility'']"

definition operational_risks :: "string list" where
  "operational_risks =
     [''lawsuit'', ''litigation'', ''supply chain'', ''strike'', ''fraud'', ''management failure'']"

definition negative_signals :: "string list" where
  "negative_signals =
     [''loss'', ''decline'', ''uncertain'', ''risk'', ''default'', ''bankruptcy'', ''crisis'']"

definition found :: "string list \<Rightarrow> string \<Rightarrow> string list" where
  \<comment> \<open>\<open>[word for word in words if word in processed_data.lower()]\<close>\<close>
  "found ws text = filter (\<lambda>word. contains word (lower (processed_data text))) ws"

definition float_0_6 :: pyfloat where
  \<comment> \<open>The literal \<open>0.6\<close>\<close>
  "float_0_6 = round_double (6 / 10)"

definition float_0_4 :: pyfloat where
  \<comment> \<open>The literal \<open>0.4\<close>\<close>
  "float_0_4 = round_double (4 / 10)"

definition high_solvency :: string where
  "high_solvency = cross_mark @ '' High solvency risk: Company relies heavily on debt.''"

definition moderate_solvency :: string where
  "moderate_solvency = warning @ '' Moderate solvency risk: Debt levels may be concerning.''"

definition healthy_solvency :: string where
  "healthy_solvency = check_mark @ '' Healthy solvency position.''"

definition debt_to_assets :: "pyfloat list \<Rightarrow> pyfloat list \<Rightarrow> error + pyfloat" where
  \<comment> \<open>Lines 150-152\<close>
  "debt_to_assets as ds =
     and_then (mean as) (\<lambda>avg_assets.
     and_then (mean ds) (\<lambda>avg_debt.
     if truthy avg_assets then truediv avg_debt avg_assets else Inr (Finite 0)))"

definition solvency_class :: "pyfloat \<Rightarrow> string" where
  \<comment> \<open>Lines 154-159\<close>
  "solvency_class ratio =
     (if gt ratio float_0_6 then high_solvency
      else if gt ratio float_0_4 then moderate_solvency
      else healthy_solvency)"

definition solvency_insights :: "pyfloat list \<Rightarrow> pyfloat list \<Rightarrow> string list \<Rightarrow> error + string list" where
  \<comment> \<open>Step 3, first block (lines 149-159)\<close>
  "solvency_insights as ds insights =
     (if as \<noteq> [] \<and> ds \<noteq> [] then
        and_then (debt_to_assets as ds) (\<lambda>ratio.
        Inr (insights @
          [scales @ '' Debt-to-Assets Ratio: '' @ format_2f False ratio, solvency_class ratio]))
      else Inr insights)"

definition high_servicing :: string where
  "high_servicing =
     cross_mark @ '' High debt servicing risk: Profits may not cover obligations.''"

definition moderate_servicing :: string where
  "moderate_servicing = warning @ '' Moderate debt servicing risk.''"

definition manageable_servicing :: string where
  "manageable_servicing = check_mark @ '' Debt levels manageable relative to income.''"

definition servicing_class :: "pyfloat \<Rightarrow> string" where
  \<comment> \<open>Lines 166-171\<close>
  "servicing_class ratio =
     (if gt ratio (Finite 4) then high_servicing
      else if gt ratio (Finite 2) then moderate_servicing
      else manageable_servicing)"

definition servicing_insights :: "pyfloat list \<Rightarrow> pyfloat list \<Rightarrow> string list \<Rightarrow> error + string list" where
  \<comment> \<open>Step 3, second block (lines 161-171)\<close>
  "servicing_insights ps ds insights =
     (if ps \<noteq> [] \<and> ds \<noteq> [] then
        and_then (mean ps) (\<lambda>avg_profit.
        and_then (mean ds) (\<lambda>avg_debt.
        and_then (if truthy avg_profit then truediv avg_debt avg_profit else Inr Infinity)
          (\<lambda>debt_to_income.
        Inr (insights @
          [scales @ '' Debt-to-Income Ratio: '' @ format_2f False debt_to_income,
           servicing_class debt_to_income]))))
      else Inr insights)"

definition negative_signals_line :: "string list \<Rightarrow> string" where
  "negative_signals_line words = warning @ '' Negative Signals: '' @ join '', '' words"

definition keyword_insights :: "string \<Rightarrow> string list" where
  \<comment> \<open>Step 4 (lines 178-187)\<close>
  "keyword_insights text =
     (if found market_risks text \<noteq> []
      then [chart_down @ '' Market Risks detected: '' @ join '', '' (found market_risks text)]
      else [])
     @ (if found operational_risks text \<noteq> []
        then [factory @ '' Operational Risks detected: '' @
              join '', '' (found operational_risks text)]
        else [])
     @ (if found negative_signals text \<noteq> []
        then [negative_signals_line (found negative_signals text)]
        else [])"

definition risk_score :: "string list \<Rightarrow> nat" where
  \<comment> \<open>Lines 190-192\<close>
  "risk_score insights =
     (if list_ex (contains cross_mark) insights then 2 else 0)
     + (if list_ex (contains warning) insights then 1 else 0)"

definition overall :: "nat \<Rightarrow> string" where
  \<comment> \<open>Lines 194-199\<close>
  "overall score =
     (if score \<ge> 3 then red_circle @ '' High Risk Investment''
      else if score = 2 then orange_circle @ '' Medium Risk Investment''
      else green_circle @ '' Low Risk Investment'')"

definition rating_line :: "string list \<Rightarrow> string" where
  "rating_line insights = pushpin @ '' Overall Risk Rating: '' @ overall (risk_score insights)"

definition scored_insights :: "string \<Rightarrow> error + string list" where
  \<comment> \<open>The list \<open>insights\<close> when line 189 is reached.\<close>
  "scored_insights text =
     and_then (debts text) (\<lambda>ds.
     and_then (assets text) (\<lambda>as.
     and_then (profits text) (\<lambda>ps.
     and_then (solvency_insights as ds []) (\<lambda>insights.
     and_then (servicing_insights ps ds insights) (\<lambda>insights.
     Inr (insights @ keyword_insights text))))))"

definition risk_insights :: "string \<Rightarrow> error + string list" where
  \<comment> \<open>The list \<open>insights\<close> when line 203 is reached.\<close>
  "risk_insights text =
     and_then (scored_insights text) (\<lambda>insights. Inr (insights @ [rating_line insights]))"

definition RiskTool_run :: "string \<Rightarrow> error + string" where
  \<comment> \<open>\<open>RiskTool._run\<close>: the string returned, or the exception raised.\<close>
  "RiskTool_run financial_document_data =
     and_then (risk_insights financial_document_data) (\<lambda>insights.
     Inr (if insights \<noteq> [] then join newline insights
          else ''No significant risks detected.''))"

section \<open>The characters of a numeral\<close>

definition numeral_char :: "char \<Rightarrow> bool" where
  \<comment> \<open>The characters of the set \<open>[\d,.]\<close>\<close>
  "numeral_char c = in_set [Digit, Chars '',.''] c"

section \<open>Auxiliary facts\<close>

lemma and_then_Inl [simp]: "and_then (Inl e) f = Inl e"
  by (simp add: and_then_def)

lemma and_then_Inr [simp]: "and_then (Inr x) f = f x"
  by (simp add: and_then_def)

lemma and_then_eq_Inr:
  "and_then m f = Inr y \<longleftrightarrow> (\<exists>x. m = Inr x \<and> f x = Inr y)"
  by (cases m) simp_all

lemma join_snoc: "xs \<noteq> [] \<Longrightarrow> join sep (xs @ [b]) = join sep xs @ sep @ b"
  by (induction sep xs rule: join.induct) simp_all

lemma startswith_append [simp]: "startswith (w @ s) w"
  by (induction w) simp_all

lemma startswith_iff: "startswith s w \<longleftrightarrow> (\<exists>r. s = w @ r)"
  by (induction s w rule: startswith.induct) auto

lemma contains_iff: "contains w s \<longleftrightarrow> (\<exists>p r. s = p @ w @ r)"
proof (induction s)
  case Nil
  then show ?case by auto
next
  case (Cons x s)
  show ?case
  proof
    assume "contains w (x # s)"
    then consider "startswith (x # s) w" | "contains w s" by auto
    then show "\<exists>p r. x # s = p @ w @ r"
    proof cases
      case 1
      then obtain r where "x # s = w @ r" by (auto simp: startswith_iff)
      then have "x # s = [] @ w @ r" by simp
      then show ?thesis by blast
    next
      case 2
      then obtain p r where "s = p @ w @ r" using Cons.IH by blast
      then have "x # s = (x # p) @ w @ r" by simp
      then show ?thesis by blast
    qed
  next
    assume "\<exists>p r. x # s = p @ w @ r"
    then obtain p r where eq: "x # s = p @ w @ r" by blast
    show "contains w (x # s)"
    proof (cases p)
      case Nil
      then have "startswith (x # s) w" using eq by (simp add: startswith_iff)
      then show ?thesis by simp
    next
      case (Cons y p')
      then have "s = p' @ w @ r" using eq by simp
      then have "contains w s" using Cons.IH by blast
      then show ?thesis by simp
    qed
  qed
qed

lemma contains_prefix: "contains w (w @ s)"
proof -
  have "w @ s = [] @ w @ s" by simp
  then show ?thesis unfolding contains_iff by blast
qed

subsection \<open>What the patterns capture\<close>

lemma greedy_plus_set:
  "r \<in> set (greedy_plus P s) \<Longrightarrow> \<exists>p. s = p @ r \<and> p \<noteq> [] \<and> list_all P p"
proof (induction s)
  case Nil
  then show ?case by simp
next
  case (Cons c s)
  then have c: "P c" and r: "r \<in> set (greedy_plus P s) \<or> r = s"
    by (auto split: if_splits)
  from r show ?case
  proof
    assume "r \<in> set (greedy_plus P s)"
    then obtain p where "s = p @ r" "list_all P p" using Cons.IH by blast
    then have "c # s = (c # p) @ r \<and> c # p \<noteq> [] \<and> list_all P (c # p)" using c by simp
    then show ?thesis by blast
  next
    assume "r = s"
    then have "c # s = [c] @ r \<and> [c] \<noteq> [] \<and> list_all P [c]" using c by simp
    then show ?thesis by blast
  qed
qed

lemma matches_Seq:
  "(g, r) \<in> set (matches (Seq a b) s) \<longleftrightarrow>
   (\<exists>g1 s1 g2. (g1, s1) \<in> set (matches a s) \<and> (g2, r) \<in> set (matches b s1) \<and> g = g1 @ g2)"
  by (auto simp: image_iff) force

lemma matches_Lit_groups: "(g, r) \<in> set (matches (Lit c) s) \<Longrightarrow> g = []"
  by (auto split: list.splits if_splits)

lemma matches_Set_groups: "(g, r) \<in> set (matches (Set cs) s) \<Longrightarrow> g = []"
  by (auto split: list.splits if_splits)

lemma matches_lit_groups: "(g, r) \<in> set (matches (lit w) s) \<Longrightarrow> g = []"
proof (induction w arbitrary: g s)
  case Nil
  then show ?case by simp
next
  case (Cons c w)
  then obtain g1 s1 g2 where "(g1, s1) \<in> set (matches (Lit c) s)"
    "(g2, r) \<in> set (matches (lit w) s1)" "g = g1 @ g2"
    unfolding lit.simps matches_Seq by blast
  then show ?case using Cons.IH matches_Lit_groups by blast
qed

lemma matches_number_group:
  assumes "(g, r) \<in> set (matches (Group (GreedyPlus [Digit, Chars '',.''])) s)"
  shows "\<exists>n. g = [n] \<and> list_all numeral_char n"
proof -
  from assms obtain r' where r': "r' \<in> set (greedy_plus (in_set [Digit, Chars '',.'']) s)"
    and g: "g = [take (length s - length r') s]"
    by auto
  from greedy_plus_set [OF r'] obtain p where "s = p @ r'"
    "list_all (in_set [Digit, Chars '',.'']) p" by blast
  then have "take (length s - length r') s = p \<and> list_all numeral_char p"
    by (simp add: numeral_char_def [abs_def])
  then show ?thesis using g by simp
qed

lemma matches_number_tail:
  assumes "(g, r) \<in> set (matches number_tail s)"
  shows "\<exists>n. g = [n] \<and> list_all numeral_char n"
proof -
  from assms obtain g1 s1 g2 where 1: "(g1, s1) \<in> set (matches (LazyStar [Word, Space]) s)"
    and 2: "(g2, r) \<in> set (matches (Seq (Opt (Lit (CHR ''$'')))
              (Group (GreedyPlus [Digit, Chars '',.'']))) s1)"
    and g: "g = g1 @ g2"
    unfolding number_tail_def matches_Seq by blast
  from 1 have g1: "g1 = []" by auto
  from 2 obtain g3 s3 g4 where 3: "(g3, s3) \<in> set (matches (Opt (Lit (CHR ''$''))) s1)"
    and 4: "(g4, r) \<in> set (matches (Group (GreedyPlus [Digit, Chars '',.''])) s3)"
    and g2: "g2 = g3 @ g4"
    unfolding matches_Seq by blast
  from 3 have g3: "g3 = []" by (auto split: list.splits if_splits)
  from matches_number_group [OF 4] show ?thesis using g g1 g2 g3 by simp
qed

lemma matches_SeqD:
  "(g, r) \<in> set (matches (Seq a b) s) \<Longrightarrow>
   \<exists>g1 s1 g2. (g1, s1) \<in> set (matches a s) \<and> (g2, r) \<in> set (matches b s1) \<and> g = g1 @ g2"
  by (simp only: matches_Seq)

lemma matches_Opt_Set_groups: "(g, r) \<in> set (matches (Opt (Set cs)) s) \<Longrightarrow> g = []"
  by (auto split: list.splits if_splits)

lemma matches_GreedyPlus_groups: "(g, r) \<in> set (matches (GreedyPlus cs) s) \<Longrightarrow> g = []"
  by auto

lemma matches_GroupD:
  "(g, r) \<in> set (matches (Group a) s) \<Longrightarrow> \<exists>x g'. g = x # g' \<and> (g', r) \<in> set (matches a s)"
  by auto

lemma revenue_captures:
  assumes "(g, r) \<in> set (matches revenue_pattern s)"
  shows "list_all numeral_char (group 0 g)"
proof -
  from matches_SeqD [OF assms [unfolded revenue_pattern_def]]
  obtain g1 s1 g2 where 1: "(g1, s1) \<in> set (matches (lit ''revenue'') s)"
    and 2: "(g2, r) \<in> set (matches (Seq (Opt (Set [Chars ''s'']))
         (Seq (GreedyPlus [Space]) number_tail)) s1)" and g: "g = g1 @ g2"
    by blast
  from matches_SeqD [OF 2]
  obtain g3 s3 g4 where 3: "(g3, s3) \<in> set (matches (Opt (Set [Chars ''s''])) s1)"
    and 4: "(g4, r) \<in> set (matches (Seq (GreedyPlus [Space]) number_tail) s3)"
    and g2: "g2 = g3 @ g4"
    by blast
  from matches_SeqD [OF 4]
  obtain g5 s5 g6 where 5: "(g5, s5) \<in> set (matches (GreedyPlus [Space]) s3)"
    and 6: "(g6, r) \<in> set (matches number_tail s5)" and g4: "g4 = g5 @ g6"
    by blast
  from matches_number_tail [OF 6] obtain n where "g6 = [n]" "list_all numeral_char n" by blast
  then show ?thesis
    using g g2 g4 matches_GreedyPlus_groups [OF 5] matches_lit_groups [OF 1]
      matches_Opt_Set_groups [OF 3]
    by (simp add: group_def)
qed

lemma labelled_captures:
  assumes "(g, r) \<in> set (matches (Seq (Group a) number_tail) s)"
    and "\<And>g' r' s'. (g', r') \<in> set (matches a s') \<Longrightarrow> g' = []"
  shows "list_all numeral_char (group 1 g)"
proof -
  from matches_SeqD [OF assms(1)]
  obtain g1 s1 g2 where 1: "(g1, s1) \<in> set (matches (Group a) s)"
    and 2: "(g2, r) \<in> set (matches number_tail s1)" and g: "g = g1 @ g2"
    by blast
  from matches_GroupD [OF 1] obtain x g' where "g1 = x # g'" "(g', s1) \<in> set (matches a s)"
    by blast
  then have "g1 = [x]" using assms(2) by blast
  moreover from matches_number_tail [OF 2] obtain n where "g2 = [n]" "list_all numeral_char n"
    by blast
  ultimately show ?thesis using g by (simp add: group_def)
qed

lemma matches_Alt_lit_groups:
  assumes "(g, r) \<in> set (matches (Alt (lit v) (lit w)) s)"
  shows "g = []"
proof -
  from assms have "(g, r) \<in> set (matches (lit v) s) \<or> (g, r) \<in> set (matches (lit w) s)"
    by (simp only: matches.simps set_append Un_iff)
  then show ?thesis using matches_lit_groups by blast
qed

lemma profit_captures:
  assumes "(g, r) \<in> set (matches profit_pattern s)"
  shows "list_all numeral_char (group 1 g)"
  using assms [unfolded profit_pattern_def] matches_Alt_lit_groups by (rule labelled_captures)

lemma debt_captures:
  assumes "(g, r) \<in> set (matches debt_pattern s)"
  shows "list_all numeral_char (group 1 g)"
  using assms [unfolded debt_pattern_def] matches_Alt_lit_groups by (rule labelled_captures)

lemma matches_asset_label_groups:
  assumes "(g, r) \<in> set (matches (Seq (lit ''asset'') (Opt (Set [Chars ''s'']))) s)"
  shows "g = []"
proof -
  from matches_SeqD [OF assms] obtain g1 s1 g2 where "(g1, s1) \<in> set (matches (lit ''asset'') s)"
    "(g2, r) \<in> set (matches (Opt (Set [Chars ''s''])) s1)" "g = g1 @ g2"
    by blast
  then show ?thesis using matches_lit_groups matches_Opt_Set_groups by blast
qed

lemma asset_captures:
  assumes "(g, r) \<in> set (matches asset_pattern s)"
  shows "list_all numeral_char (group 1 g)"
  using assms [unfolded asset_pattern_def] matches_asset_label_groups by (rule labelled_captures)

lemma findall_from_set:
  "g \<in> set (findall_from r k s) \<Longrightarrow> \<exists>p s' rest. s = p @ s' \<and> (g, rest) \<in> set (matches r s')"
proof (induction s arbitrary: k)
  case Nil
  then show ?case by simp
next
  case (Cons c s)
  have step: "\<exists>p s' rest. c # s = p @ s' \<and> (g, rest) \<in> set (matches r s')"
    if "g \<in> set (findall_from r k' s)" for k'
  proof -
    from Cons.IH [OF that] obtain p s' rest where "s = p @ s'"
      "(g, rest) \<in> set (matches r s')" by blast
    then have "c # s = (c # p) @ s' \<and> (g, rest) \<in> set (matches r s')"
      by simp
    then show ?thesis by blast
  qed
  show ?case
  proof (cases "0 < k")
    case True
    then have "g \<in> set (findall_from r (k - 1) s)" using Cons.prems by simp
    then show ?thesis by (rule step)
  next
    case False
    show ?thesis
    proof (cases "matches r (c # s)")
      case Nil
      then have "g \<in> set (findall_from r 0 s)" using Cons.prems False by simp
      then show ?thesis by (rule step)
    next
      case (Cons a list)
      obtain g0 rest0 where a: "a = (g0, rest0)" by (cases a)
      from Cons.prems False Cons a
      have "g = g0 \<or> g \<in> set (findall_from r (length s - length rest0) s)" by simp
      then show ?thesis
      proof
        assume "g = g0"
        then have "c # s = [] @ (c # s) \<and> (g, rest0) \<in> set (matches r (c # s))"
          using Cons a by simp
        then show ?thesis by blast
      next
        assume "g \<in> set (findall_from r (length s - length rest0) s)"
        then show ?thesis by (rule step)
      qed
    qed
  qed
qed

subsection \<open>The extraction never raises\<close>

lemma numeral_digit: "numeral_char c \<Longrightarrow> isdigit_char c \<Longrightarrow> isdecimal c"
proof -
  have "\<forall>c. numeral_char c \<and> isdigit_char c \<longrightarrow> isdecimal c"
    by code_simp
  then show "numeral_char c \<Longrightarrow> isdigit_char c \<Longrightarrow> isdecimal c" by blast
qed

lemma py_float_total:
  assumes "list_all numeral_char r" and "isdigit (replace_commas r)"
  shows "\<exists>x. py_float (replace_commas r) = Inr x"
proof -
  have "list_all numeral_char (replace_commas r)"
    using assms(1) by (simp add: replace_commas_def list_all_iff)
  moreover have "list_all isdigit_char (replace_commas r)" and "replace_commas r \<noteq> []"
    using assms(2) by (simp_all add: isdigit_def)
  ultimately have "list_all isdecimal (replace_commas r)"
    using numeral_digit by (auto simp: list_all_iff)
  then show ?thesis using \<open>replace_commas r \<noteq> []\<close> by (simp add: py_float_def)
qed

lemma amounts_total:
  "list_all (list_all numeral_char) rs \<Longrightarrow> \<exists>xs. amounts rs = Inr xs"
proof (induction rs)
  case Nil
  then show ?case by simp
next
  case (Cons r rs)
  then obtain xs where xs: "amounts rs = Inr xs" by auto
  show ?case
  proof (cases "isdigit (replace_commas r)")
    case True
    then obtain x where "py_float (replace_commas r) = Inr x"
      using py_float_total Cons.prems by auto
    then show ?thesis using True xs by simp
  next
    case False
    then show ?thesis using xs by simp
  qed
qed

lemma captures_numeral:
  assumes "\<And>g r s. (g, r) \<in> set (matches pat s) \<Longrightarrow> list_all numeral_char (group i g)"
  shows "list_all (list_all numeral_char) (map (group i) (findall pat s))"
proof -
  have "list_all numeral_char (group i g)" if "g \<in> set (findall pat s)" for g
  proof -
    from that obtain p s' rest where "(g, rest) \<in> set (matches pat s')"
      unfolding findall_def using findall_from_set by blast
    then show ?thesis by (rule assms)
  qed
  then show ?thesis by (simp add: list_all_iff)
qed

lemma revenues_total: "\<exists>rs. revenues text = Inr rs"
  unfolding revenues_def revenue_matches_def
  by (rule amounts_total, rule captures_numeral, rule revenue_captures)

lemma profits_total: "\<exists>ps. profits text = Inr ps"
  unfolding profits_def profit_matches_def
  by (rule amounts_total, rule captures_numeral, rule profit_captures)

lemma debts_total: "\<exists>ds. debts text = Inr ds"
  unfolding debts_def debt_matches_def
  by (rule amounts_total, rule captures_numeral, rule debt_captures)

lemma assets_total: "\<exists>as. assets text = Inr as"
  unfolding assets_def asset_matches_def
  by (rule amounts_total, rule captures_numeral, rule asset_captures)

lemma mean_total: "xs \<noteq> [] \<Longrightarrow> \<exists>m. mean xs = Inr m"
  by (simp add: mean_def)

lemma truediv_total: "truthy y \<Longrightarrow> \<exists>q. truediv x y = Inr q"
  by (cases y; cases x) (simp_all add: truthy_def)

lemma truediv_zero: "truediv x (Finite 0) = Inl ZeroDivisionError"
  by simp

lemma round_double_0: "round_double 0 = Finite 0"
  by (simp add: round_double_def)

subsection \<open>Comparison of floats\<close>

lemma gt_asym: "gt x y \<Longrightarrow> \<not> gt y x"
  by (cases x; cases y) simp_all

lemma gt_irrefl: "\<not> gt x x"
  by (cases x) simp_all

subsection \<open>The lines of the risk tool\<close>

lemma debt_to_assets_total:
  assumes "as \<noteq> []" and "ds \<noteq> []"
  shows "\<exists>a d ratio. mean as = Inr a \<and> mean ds = Inr d \<and> debt_to_assets as ds = Inr ratio \<and>
    (if a = Finite 0 then ratio = Finite 0 else truediv d a = Inr ratio)"
proof -
  obtain a where a: "mean as = Inr a" using assms(1) mean_total by blast
  obtain d where d: "mean ds = Inr d" using assms(2) mean_total by blast
  show ?thesis
  proof (cases "a = Finite 0")
    case True
    then have "debt_to_assets as ds = Inr (Finite 0)"
      using a d by (simp add: debt_to_assets_def truthy_def)
    then show ?thesis using a d True by simp
  next
    case False
    then have "truthy a" by (simp add: truthy_def)
    then obtain q where q: "truediv d a = Inr q" using truediv_total by blast
    then have "debt_to_assets as ds = Inr q"
      using a d \<open>truthy a\<close> by (simp add: debt_to_assets_def)
    then show ?thesis using a d False q by simp
  qed
qed

lemma servicing_class_cases:
  "servicing_class q = high_servicing \<or> servicing_class q = moderate_servicing \<or>
   servicing_class q = manageable_servicing"
  by (simp add: servicing_class_def)

lemma servicing_insights_shape:
  "\<exists>extra. servicing_insights ps ds ins = Inr (ins @ extra) \<and>
     (\<forall>l\<in>set extra. (\<exists>x. l = scales @ x) \<or> l = high_servicing \<or> l = moderate_servicing \<or>
        l = manageable_servicing)"
proof (cases "ps \<noteq> [] \<and> ds \<noteq> []")
  case False
  then have "servicing_insights ps ds ins = Inr (ins @ [])"
    by (auto simp: servicing_insights_def)
  then show ?thesis by (intro exI [of _ "[]"]) simp
next
  case True
  obtain p where p: "mean ps = Inr p" using True mean_total by blast
  obtain d where d: "mean ds = Inr d" using True mean_total by blast
  obtain q where q: "(if truthy p then truediv d p else Inr Infinity) = Inr q"
    using truediv_total [of p d] by (cases "truthy p") auto
  let ?extra = "[scales @ '' Debt-to-Income Ratio: '' @ format_2f False q, servicing_class q]"
  have "servicing_insights ps ds ins = Inr (ins @ ?extra)"
    using True p d q by (simp add: servicing_insights_def)
  moreover have "\<forall>l\<in>set ?extra. (\<exists>x. l = scales @ x) \<or> l = high_servicing \<or>
      l = moderate_servicing \<or> l = manageable_servicing"
    using servicing_class_cases [of q] by auto
  ultimately show ?thesis by blast
qed

lemma keyword_lines:
  "l \<in> set (keyword_insights text) \<Longrightarrow>
   (\<exists>x. l = chart_down @ x) \<or> (\<exists>x. l = factory @ x) \<or>
   (\<exists>x. l = warning @ '' Negative Signals: '' @ x)"
  by (auto simp: keyword_insights_def negative_signals_line_def split: if_splits)

lemma scales_not_solvency:
  "l = scales @ x \<Longrightarrow> l \<noteq> high_solvency \<and> l \<noteq> moderate_solvency \<and> l \<noteq> healthy_solvency"
  by (simp add: scales_def high_solvency_def moderate_solvency_def healthy_solvency_def
      cross_mark_def warning_def check_mark_def)

lemma chart_down_not_solvency:
  "l = chart_down @ x \<Longrightarrow>
   l \<noteq> high_solvency \<and> l \<noteq> moderate_solvency \<and> l \<noteq> healthy_solvency"
  by (simp add: chart_down_def high_solvency_def moderate_solvency_def healthy_solvency_def
      cross_mark_def warning_def check_mark_def)

lemma factory_not_solvency:
  "l = factory @ x \<Longrightarrow>
   l \<noteq> high_solvency \<and> l \<noteq> moderate_solvency \<and> l \<noteq> healthy_solvency"
  by (simp add: factory_def high_solvency_def moderate_solvency_def healthy_solvency_def
      cross_mark_def warning_def check_mark_def)

lemma negative_signals_not_solvency:
  "l = warning @ '' Negative Signals: '' @ x \<Longrightarrow>
   l \<noteq> high_solvency \<and> l \<noteq> moderate_solvency \<and> l \<noteq> healthy_solvency"
  by (simp add: high_solvency_def moderate_solvency_def healthy_solvency_def
      cross_mark_def warning_def check_mark_def)

lemma servicing_not_solvency:
  "l = high_servicing \<or> l = moderate_servicing \<or> l = manageable_servicing \<Longrightarrow>
   l \<noteq> high_solvency \<and> l \<noteq> moderate_solvency \<and> l \<noteq> healthy_solvency"
  by (auto simp: high_servicing_def moderate_servicing_def manageable_servicing_def
      high_solvency_def moderate_solvency_def healthy_solvency_def
      cross_mark_def warning_def check_mark_def)

lemma scored_insights_solvency:
  assumes "assets text = Inr as" and "debts text = Inr ds"
    and "solvency_insights as ds [] = Inr i1"
  shows "\<exists>rest. scored_insights text = Inr (i1 @ rest) \<and>
    (\<forall>l\<in>set rest. l \<noteq> high_solvency \<and> l \<noteq> moderate_solvency \<and> l \<noteq> healthy_solvency)"
proof -
  obtain ps where ps: "profits text = Inr ps" using profits_total by blast
  obtain extra where e: "servicing_insights ps ds i1 = Inr (i1 @ extra)"
    and el: "\<forall>l\<in>set extra. (\<exists>x. l = scales @ x) \<or> l = high_servicing \<or>
      l = moderate_servicing \<or> l = manageable_servicing"
    using servicing_insights_shape by blast
  have 1: "scored_insights text = Inr (i1 @ (extra @ keyword_insights text))"
    using assms ps e by (simp add: scored_insights_def)
  have 2: "\<forall>l\<in>set (extra @ keyword_insights text).
      l \<noteq> high_solvency \<and> l \<noteq> moderate_solvency \<and> l \<noteq> healthy_solvency"
  proof
    fix l
    assume "l \<in> set (extra @ keyword_insights text)"
    then consider "l \<in> set extra" | "l \<in> set (keyword_insights text)" by auto
    then show "l \<noteq> high_solvency \<and> l \<noteq> moderate_solvency \<and> l \<noteq> healthy_solvency"
    proof cases
      case 1
      then have "(\<exists>x. l = scales @ x) \<or> (l = high_servicing \<or> l = moderate_servicing \<or>
        l = manageable_servicing)" using el by simp
      then show ?thesis
      proof
        assume "\<exists>x. l = scales @ x"
        then obtain x where "l = scales @ x" ..
        then show ?thesis by (rule scales_not_solvency)
      next
        assume "l = high_servicing \<or> l = moderate_servicing \<or> l = manageable_servicing"
        then show ?thesis by (rule servicing_not_solvency)
      qed
    next
      case 2
      from keyword_lines [OF 2] show ?thesis
      proof (elim disjE exE)
        fix x assume "l = chart_down @ x"
        then show ?thesis by (rule chart_down_not_solvency)
      next
        fix x assume "l = factory @ x"
        then show ?thesis by (rule factory_not_solvency)
      next
        fix x assume "l = warning @ '' Negative Signals: '' @ x"
        then show ?thesis by (rule negative_signals_not_solvency)
      qed
    qed
  qed
  show ?thesis by (rule exI [of _ "extra @ keyword_insights text"]) (rule conjI [OF 1 2])
qed

lemma scored_insights_keywords:
  "scored_insights text = Inr ins \<Longrightarrow> \<exists>pre. ins = pre @ keyword_insights text"
  by (auto simp: scored_insights_def and_then_eq_Inr)

lemma thresholds: "gt float_0_6 float_0_4"
  by code_simp

lemma healthy_no_marker:
  "\<not> contains cross_mark healthy_solvency \<and> \<not> contains warning healthy_solvency"
  by code_simp

lemma gt_trans: "gt x y \<Longrightarrow> gt y z \<Longrightarrow> gt x z"
  by (cases x; cases y; cases z) simp_all

subsection \<open>The lines of the investment tool\<close>

lemma join_snoc2:
  "join sep (xs @ [a, b]) = join sep (xs @ [a]) @ sep @ b"
  using join_snoc [of "xs @ [a]" sep b] by simp

lemma investment_run_shape:
  assumes "revenues text = Inr rs" and "profits text = Inr ps" and "debts text = Inr ds"
    and "margin_insights rs ps [] = Inr i1" and "debt_insights ds ps i1 = Inr i2"
    and "recommendation ps rs (hits positive_keywords text) (hits negative_keywords text) = Inr r"
  shows "InvestmentTool_run text =
    Inr (join newline
      (i2 @ [sentiment (hits positive_keywords text) (hits negative_keywords text),
             recommendation_line r]))"
proof -
  have "investment_insights text =
      Inr (i2 @ [sentiment (hits positive_keywords text) (hits negative_keywords text),
                 recommendation_line r])"
    using assms by (simp add: investment_insights_def)
  then show ?thesis by (simp add: InvestmentTool_run_def)
qed

lemma investment_run_cases:
  assumes "InvestmentTool_run text = Inr out"
  shows "\<exists>rs ps i2 r. revenues text = Inr rs \<and> profits text = Inr ps \<and>
    recommendation ps rs (hits positive_keywords text) (hits negative_keywords text) = Inr r \<and>
    out = join newline
      (i2 @ [sentiment (hits positive_keywords text) (hits negative_keywords text),
             recommendation_line r])"
proof -
  from assms obtain ins where ii: "investment_insights text = Inr ins"
    and out: "out = (if ins \<noteq> [] then join newline ins
      else ''No meaningful financial insights extracted.'')"
    by (auto simp: InvestmentTool_run_def and_then_eq_Inr)
  from ii obtain rs ps i2 r where 1: "revenues text = Inr rs" and 2: "profits text = Inr ps"
    and 3: "recommendation ps rs (hits positive_keywords text) (hits negative_keywords text)
      = Inr r"
    and ins: "ins = i2 @ [sentiment (hits positive_keywords text) (hits negative_keywords text),
             recommendation_line r]"
    by (auto simp: investment_insights_def and_then_eq_Inr)
  have 4: "out = join newline
      (i2 @ [sentiment (hits positive_keywords text) (hits negative_keywords text),
             recommendation_line r])"
    using out ins by simp
  from 1 2 3 4 show ?thesis
    by - (rule exI [of _ rs], rule exI [of _ ps], rule exI [of _ i2], rule exI [of _ r],
      intro conjI; assumption)
qed

lemma recommendation_cases:
  "recommendation ps rs p n = Inr r \<Longrightarrow> r = ''Buy'' \<or> r = ''Sell'' \<or> r = ''Hold''"
  by (auto simp: recommendation_def and_then_eq_Inr split: if_splits)

lemma recommendation_Buy:
  "recommendation ps rs p n = Inr ''Buy'' \<Longrightarrow>
   n < p \<and> (\<exists>m. margin ps rs = Inr m \<and> gt m (Finite 15))"
  by (auto simp: recommendation_def and_then_eq_Inr split: if_splits)

lemma line_suffix:
  assumes "pre @ recommendation_line ''Buy'' = x @ recommendation_line r"
    and "r = ''Buy'' \<or> r = ''Sell'' \<or> r = ''Hold''"
  shows "r = ''Buy'' \<and> pre = x"
proof -
  have "last (pre @ recommendation_line ''Buy'') = last (x @ recommendation_line r)"
    by (simp only: assms(1))
  then have "r \<noteq> ''Sell''" and "r \<noteq> ''Hold''"
    by (auto simp: recommendation_line_def)
  with assms(2) have "r = ''Buy''" by simp
  then show ?thesis using assms(1) by simp
qed

lemma zero_profit_margin:
  assumes "mean ps = Inr (Finite 0)" and "margin ps rs = Inr m"
  shows "m = Finite 0 \<or> m = NaN"
proof -
  from assms obtain r q where "truediv (Finite 0) r = Inr q" and m: "m = mul q (Finite 100)"
    by (auto simp: margin_def and_then_eq_Inr)
  then have "q = Finite 0 \<or> q = NaN"
    by (cases r) (auto simp: round_double_0 split: if_splits)
  then show ?thesis using m by (auto simp: round_double_0)
qed

lemma margin_insights_total:
  assumes "rs \<noteq> []" and "ps \<noteq> []"
  shows "\<exists>i1. margin_insights rs ps ins = Inr i1"
proof -
  obtain r where r: "mean rs = Inr r" using assms(1) mean_total by blast
  obtain p where p: "mean ps = Inr p" using assms(2) mean_total by blast
  obtain v where "(if truthy r then and_then (truediv p r) (\<lambda>q. Inr (mul q (Finite 100)))
      else Inr (Finite 0)) = Inr v"
    using truediv_total [of r p] by (cases "truthy r") auto
  then show ?thesis using assms r p by (simp add: margin_insights_def)
qed

lemma debt_insights_total:
  assumes "mean ps \<noteq> Inr (Finite 0)"
  shows "\<exists>i2. debt_insights ds ps ins = Inr i2"
proof (cases "ds \<noteq> [] \<and> ps \<noteq> []")
  case False
  then show ?thesis by (auto simp: debt_insights_def)
next
  case True
  obtain d where d: "mean ds = Inr d" using True mean_total by blast
  obtain p where p: "mean ps = Inr p" using True mean_total by blast
  then have "truthy p" using assms by (simp add: truthy_def)
  then obtain q where "truediv d p = Inr q" using truediv_total by blast
  then show ?thesis using True d p by (simp add: debt_insights_def)
qed

lemma margin_total:
  assumes "rs \<noteq> []" and "ps \<noteq> []" and "mean rs \<noteq> Inr (Finite 0)"
  shows "\<exists>p r q. mean ps = Inr p \<and> mean rs = Inr r \<and> truediv p r = Inr q \<and>
    margin ps rs = Inr (mul q (Finite 100))"
proof -
  obtain r where r: "mean rs = Inr r" using assms(1) mean_total by blast
  obtain p where p: "mean ps = Inr p" using assms(2) mean_total by blast
  have "truthy r" using assms(3) r by (simp add: truthy_def)
  then obtain q where q: "truediv p r = Inr q" using truediv_total by blast
  then have "margin ps rs = Inr (mul q (Finite 100))" using r p by (simp add: margin_def)
  then show ?thesis using r p q by simp
qed

lemma outlooks_differ:
  "positive_outlook \<noteq> neutral_outlook \<and> positive_outlook \<noteq> negative_outlook"
  by (simp add: positive_outlook_def neutral_outlook_def negative_outlook_def
      check_mark_def information_def warning_def)

subsection \<open>Where a pattern can match\<close>












subsection \<open>The risk tool returns on every text\<close>

lemma solvency_insights_total: "\<exists>i1. solvency_insights as ds ins = Inr i1"
proof (cases "as \<noteq> [] \<and> ds \<noteq> []")
  case False
  then show ?thesis by (auto simp: solvency_insights_def)
next
  case True
  then obtain ratio where "debt_to_assets as ds = Inr ratio"
    using debt_to_assets_total [of as ds] by blast
  then show ?thesis using True by (simp add: solvency_insights_def)
qed

lemma RiskTool_returns: "\<exists>out. RiskTool_run text = Inr out"
proof -
  obtain ds where ds: "debts text = Inr ds" using debts_total by blast
  obtain as where as: "assets text = Inr as" using assets_total by blast
  obtain ps where ps: "profits text = Inr ps" using profits_total by blast
  obtain i1 where i1: "solvency_insights as ds [] = Inr i1"
    using solvency_insights_total by blast
  obtain extra where "servicing_insights ps ds i1 = Inr (i1 @ extra)"
    using servicing_insights_shape by blast
  then have "scored_insights text = Inr (i1 @ extra @ keyword_insights text)"
    using ds as ps i1 by (simp add: scored_insights_def)
  then show ?thesis by (simp add: RiskTool_run_def risk_insights_def)
qed

section \<open>The claims\<close>

text \<open>
  C1. Both tools return a string for every text and never raise; a division by a mean
  that is zero is guarded. The risk tool guards its two divisions by the mean. The
  investment tool does not: line 87 tests the list \<open>profits\<close>, not its mean, and line 110
  divides by the mean revenue with no test at all. On the two texts that the claim names,
  the investment tool raises \<open>ZeroDivisionError\<close>; the risk tool returns on the first.
\<close>

theorem investment_division_by_zero:
  "InvestmentTool_run ''profit 0 debt 100'' = Inl ZeroDivisionError \<and>
   InvestmentTool_run ''revenue 0 profit 5'' = Inl ZeroDivisionError \<and>
   RiskTool_run ''profit 0 debt 100'' \<noteq> Inl ZeroDivisionError"
  by code_simp

text \<open>
  C6. On the text \<open>revenue $1,200 revenue $800 net income $100 net income $50\<close> the
  revenues are 1200 and 800 and the profits 100 and 50, in this order; their means are
  1000 and 75, the profit margin is 7.5, and the three lines appended say so.
\<close>

theorem example_extraction:
  "revenues ''revenue $1,200 revenue $800 net income $100 net income $50''
     = Inr [Finite 1200, Finite 800] \<and>
   profits ''revenue $1,200 revenue $800 net income $100 net income $50''
     = Inr [Finite 100, Finite 50] \<and>
   mean [Finite 1200, Finite 800] = Inr (Finite 1000) \<and>
   mean [Finite 100, Finite 50] = Inr (Finite 75) \<and>
   margin [Finite 100, Finite 50] [Finite 1200, Finite 800] = Inr (Finite (15 / 2)) \<and>
   margin_insights [Finite 1200, Finite 800] [Finite 100, Finite 50] [] =
     Inr [bar_chart @ '' Average Revenue: $1,000.00'',
          bar_chart @ '' Average Profit: $75.00'',
          bar_chart @ '' Profit Margin: 7.50%'']"
  by code_simp

text \<open>
  C5. In every category and for every text, a captured numeral that still has a decimal
  point after the commas are taken out fails \<open>isdigit\<close> and is left out of the list:
  the list is the one got from the captures without a decimal point. Both tools build
  their lists with the same comprehension. So \<open>$12.50\<close> gives no amount.
\<close>

lemma dot_not_digit: "\<not> isdigit_char (CHR ''.'')"
  by code_simp

lemma dotted_not_isdigit:
  assumes "CHR ''.'' \<in> set r"
  shows "\<not> isdigit (replace_commas r)"
proof -
  have "CHR ''.'' \<in> set (replace_commas r)"
    using assms by (simp add: replace_commas_def)
  then have "\<not> list_all isdigit_char (replace_commas r)"
    using dot_not_digit by (auto simp: list_all_iff)
  then show ?thesis by (simp add: isdigit_def)
qed

lemma amounts_filter:
  "amounts rs = amounts (filter (\<lambda>r. CHR ''.'' \<notin> set r) rs)"
  by (induction rs) (simp_all add: dotted_not_isdigit)

text \<open>
  C5, the theorem: for each of the four categories the extracted list is the list of
  the captures that have no decimal point.
\<close>

theorem decimal_point_excluded:
  "revenues text = amounts (filter (\<lambda>r. CHR ''.'' \<notin> set r) (revenue_matches text)) \<and>
   profits text = amounts (filter (\<lambda>r. CHR ''.'' \<notin> set r) (profit_matches text)) \<and>
   debts text = amounts (filter (\<lambda>r. CHR ''.'' \<notin> set r) (debt_matches text)) \<and>
   assets text = amounts (filter (\<lambda>r. CHR ''.'' \<notin> set r) (asset_matches text)) \<and>
   profit_matches ''profit $12.50'' = [''12.50''] \<and> profits ''profit $12.50'' = Inr []"
proof -
  have "profit_matches ''profit $12.50'' = [''12.50''] \<and> profits ''profit $12.50'' = Inr []"
    by code_simp
  then show ?thesis
    unfolding revenues_def profits_def debts_def assets_def
    using amounts_filter by blast
qed

text \<open>
  C2. The claim: a text with no keyword of any vocabulary and no amount makes each tool
  return its fallback string. It does not: each tool appends its last line (and the
  investment tool its sentiment line) whatever the text, so the list of insights is
  never empty where the fallback is chosen. On such a text the risk tool returns the
  line of the low rating alone and the investment tool the neutral outlook and the
  recommendation to hold.
\<close>

lemma rating_of_nothing:
  "rating_line [] = pushpin @ '' Overall Risk Rating: '' @ green_circle @ '' Low Risk Investment''"
  by (simp add: rating_line_def risk_score_def overall_def)

text \<open>
  C2 as amended: with no amount extracted and no keyword found, each tool returns its
  last lines and not its fallback.
\<close>

theorem nothing_found:
  assumes "revenues text = Inr []" and "profits text = Inr []"
    and "debts text = Inr []" and "assets text = Inr []"
    and "hits positive_keywords text = 0" and "hits negative_keywords text = 0"
    and "found market_risks text = []" and "found operational_risks text = []"
    and "found negative_signals text = []"
  shows "RiskTool_run text =
           Inr (pushpin @ '' Overall Risk Rating: '' @ green_circle @ '' Low Risk Investment'')
       \<and> InvestmentTool_run text =
           Inr (neutral_outlook @ newline @ recommendation_line ''Hold'')"
proof
  have "scored_insights text = Inr []"
    using assms
    by (simp add: scored_insights_def solvency_insights_def servicing_insights_def
        keyword_insights_def)
  then have "risk_insights text = Inr [rating_line []]"
    by (simp add: risk_insights_def)
  then show "RiskTool_run text =
      Inr (pushpin @ '' Overall Risk Rating: '' @ green_circle @ '' Low Risk Investment'')"
    by (simp add: RiskTool_run_def rating_of_nothing)
next
  have "investment_insights text = Inr [neutral_outlook, recommendation_line ''Hold'']"
    using assms
    by (simp add: investment_insights_def margin_insights_def debt_insights_def
        recommendation_def sentiment_def)
  then show "InvestmentTool_run text =
      Inr (neutral_outlook @ newline @ recommendation_line ''Hold'')"
    by (simp add: InvestmentTool_run_def)
qed

text \<open>C2, witness: the empty text.\<close>

theorem nothing_found_witness:
  "RiskTool_run [] =
           Inr (pushpin @ '' Overall Risk Rating: '' @ green_circle @ '' Low Risk Investment'')
       \<and> InvestmentTool_run [] =
           Inr (neutral_outlook @ newline @ recommendation_line ''Hold'')"
proof -
  have "revenues [] = Inr [] \<and> profits [] = Inr [] \<and> debts [] = Inr [] \<and> assets [] = Inr [] \<and>
    hits positive_keywords [] = 0 \<and> hits negative_keywords [] = 0 \<and>
    found market_risks [] = [] \<and> found operational_risks [] = [] \<and>
    found negative_signals [] = []"
    by code_simp
  then show ?thesis using nothing_found [of "[]"] by blast
qed

text \<open>
  C2, counterexample: the empty text has no keyword and no amount, and neither tool
  returns its fallback on it.
\<close>

theorem fallback_not_returned:
  "revenues [] = Inr [] \<and> profits [] = Inr [] \<and> debts [] = Inr [] \<and> assets [] = Inr [] \<and>
   hits positive_keywords [] = 0 \<and> hits negative_keywords [] = 0 \<and>
   found market_risks [] = [] \<and> found operational_risks [] = [] \<and>
   found negative_signals [] = [] \<and>
   RiskTool_run [] \<noteq> Inr ''No significant risks detected.'' \<and>
   InvestmentTool_run [] \<noteq> Inr ''No meaningful financial insights extracted.''"
  by code_simp

text \<open>
  C4. When the lists of assets and of debts are both non-empty, the risk tool computes
  the ratio of the mean debt to the mean of the assets, 0 when that mean is zero, and
  its insights begin with the line of the ratio and one line of classification; none of
  the lines that follow is a line of the solvency classification. The classification is
  the high risk, with the cross mark, when the ratio is greater than 0.6; the moderate
  risk, with the warning sign, when it is greater than 0.4 and at most 0.6; the healthy
  position, with the check mark and neither of the two markers, when it is at most 0.4.
  A ratio of exactly 0.6 is moderate.
\<close>

theorem solvency_classification:
  assumes "assets text = Inr as" and "debts text = Inr ds" and "as \<noteq> []" and "ds \<noteq> []"
  shows "\<exists>avg_assets avg_debt ratio rest.
     mean as = Inr avg_assets \<and> mean ds = Inr avg_debt \<and>
     (if avg_assets = Finite 0 then ratio = Finite 0
      else truediv avg_debt avg_assets = Inr ratio) \<and>
     scored_insights text =
       Inr ([scales @ '' Debt-to-Assets Ratio: '' @ format_2f False ratio,
             solvency_class ratio] @ rest) \<and>
     (\<forall>l\<in>set rest. l \<noteq> high_solvency \<and> l \<noteq> moderate_solvency \<and> l \<noteq> healthy_solvency) \<and>
     (gt ratio float_0_6 \<longrightarrow>
        solvency_class ratio =
          cross_mark @ '' High solvency risk: Company relies heavily on debt.'') \<and>
     (gt ratio float_0_4 \<and> (lt ratio float_0_6 \<or> ratio = float_0_6) \<longrightarrow>
        solvency_class ratio =
          warning @ '' Moderate solvency risk: Debt levels may be concerning.'') \<and>
     (lt ratio float_0_4 \<or> ratio = float_0_4 \<longrightarrow>
        solvency_class ratio = check_mark @ '' Healthy solvency position.'') \<and>
     solvency_class float_0_6 =
       warning @ '' Moderate solvency risk: Debt levels may be concerning.'' \<and>
     \<not> contains cross_mark (check_mark @ '' Healthy solvency position.'') \<and>
     \<not> contains warning (check_mark @ '' Healthy solvency position.'')"
proof -
  from debt_to_assets_total [OF assms(3,4)]
  obtain a d ratio where a: "mean as = Inr a" and d: "mean ds = Inr d"
    and r: "debt_to_assets as ds = Inr ratio"
    and v: "if a = Finite 0 then ratio = Finite 0 else truediv d a = Inr ratio"
    by blast
  let ?lines = "[scales @ '' Debt-to-Assets Ratio: '' @ format_2f False ratio,
    solvency_class ratio]"
  have "solvency_insights as ds [] = Inr ?lines"
    using assms(3,4) r by (simp add: solvency_insights_def)
  from scored_insights_solvency [OF assms(1,2) this]
  obtain rest where s: "scored_insights text = Inr (?lines @ rest)"
    and n: "\<forall>l\<in>set rest. l \<noteq> high_solvency \<and> l \<noteq> moderate_solvency \<and> l \<noteq> healthy_solvency"
    by blast
  have hi: "gt ratio float_0_6 \<longrightarrow>
      solvency_class ratio = cross_mark @ '' High solvency risk: Company relies heavily on debt.''"
    by (simp add: solvency_class_def high_solvency_def)
  have "\<not> gt ratio float_0_6" if "lt ratio float_0_6 \<or> ratio = float_0_6"
    using that gt_asym [of float_0_6 ratio] gt_irrefl [of ratio] by (auto simp: lt_def)
  then have mo: "gt ratio float_0_4 \<and> (lt ratio float_0_6 \<or> ratio = float_0_6) \<longrightarrow>
      solvency_class ratio = warning @ '' Moderate solvency risk: Debt levels may be concerning.''"
    by (simp add: solvency_class_def moderate_solvency_def)
  have low: "\<not> gt ratio float_0_4" if "lt ratio float_0_4 \<or> ratio = float_0_4"
    using that gt_asym [of float_0_4 ratio] gt_irrefl [of ratio] by (auto simp: lt_def)
  have "\<not> gt ratio float_0_6" if "\<not> gt ratio float_0_4"
  proof
    assume "gt ratio float_0_6"
    then have "gt ratio float_0_4"
      using thresholds by (rule gt_trans)
    then show False using that by simp
  qed
  with low have he: "lt ratio float_0_4 \<or> ratio = float_0_4 \<longrightarrow>
      solvency_class ratio = check_mark @ '' Healthy solvency position.''"
    by (auto simp: solvency_class_def healthy_solvency_def)
  have eq: "solvency_class float_0_6 =
      warning @ '' Moderate solvency risk: Debt levels may be concerning.''"
    using thresholds gt_irrefl [of float_0_6]
    by (simp add: solvency_class_def moderate_solvency_def)
  have mk1: "\<not> contains cross_mark (check_mark @ '' Healthy solvency position.'')"
    using healthy_no_marker by (simp add: healthy_solvency_def)
  have mk2: "\<not> contains warning (check_mark @ '' Healthy solvency position.'')"
    using healthy_no_marker by (simp add: healthy_solvency_def)
  from a d v s n hi mo he eq mk1 mk2 show ?thesis
    by - (rule exI [of _ a], rule exI [of _ d], rule exI [of _ ratio], rule exI [of _ rest],
      intro conjI; assumption)
qed

text \<open>
  C4, witness: debts of 6 and assets of 10 give the ratio 0.6 exactly, and the moderate
  risk.
\<close>

theorem solvency_classification_witness:
  "assets ''debt 6 assets 10'' = Inr [Finite 10] \<and>
   debts ''debt 6 assets 10'' = Inr [Finite 6] \<and>
   (\<exists>rest. scored_insights ''debt 6 assets 10'' =
      Inr ([scales @ '' Debt-to-Assets Ratio: 0.60'',
            warning @ '' Moderate solvency risk: Debt levels may be concerning.''] @ rest))"
proof -
  have a: "assets ''debt 6 assets 10'' = Inr [Finite 10]" by code_simp
  have d: "debts ''debt 6 assets 10'' = Inr [Finite 6]" by code_simp
  have ne: "[Finite 10] \<noteq> []" "[Finite 6] \<noteq> []" by simp_all
  have ma: "mean [Finite 10] = Inr (Finite 10)" by code_simp
  have md: "mean [Finite 6] = Inr (Finite 6)" by code_simp
  have q: "truediv (Finite 6) (Finite 10) = Inr float_0_6" by code_simp
  have f: "format_2f False float_0_6 = ''0.60''" by code_simp
  from solvency_classification [OF a d ne]
  obtain avg_assets avg_debt ratio rest where
    1: "mean [Finite 10] = Inr avg_assets" and 2: "mean [Finite 6] = Inr avg_debt"
    and 3: "if avg_assets = Finite 0 then ratio = Finite 0
      else truediv avg_debt avg_assets = Inr ratio"
    and 4: "scored_insights ''debt 6 assets 10'' =
       Inr ([scales @ '' Debt-to-Assets Ratio: '' @ format_2f False ratio,
             solvency_class ratio] @ rest)"
    and 5: "solvency_class float_0_6 =
       warning @ '' Moderate solvency risk: Debt levels may be concerning.''"
    by blast
  from 1 ma have "avg_assets = Finite 10" by simp
  moreover from 2 md have "avg_debt = Finite 6" by simp
  ultimately have "ratio = float_0_6" using 3 q by simp
  then have "scored_insights ''debt 6 assets 10'' =
      Inr ([scales @ '' Debt-to-Assets Ratio: 0.60'',
            warning @ '' Moderate solvency risk: Debt levels may be concerning.''] @ rest)"
    using 4 5 f by simp
  then show ?thesis using a d by blast
qed

text \<open>
  C9. The line of the negative signals begins with the warning sign, the marker that the
  score counts for one point. So when the insights have a classification of high risk
  (of solvency or of debt servicing, each with the cross mark, worth two points) and the
  text has a word of the negative signals, the line of the negative signals is among the
  insights, the score is 3 and the tool returns the insights followed by the rating of
  high risk, whether or not a moderate classification was appended.
\<close>

theorem negative_signals_count:
  assumes "scored_insights text = Inr ins"
    and "high_solvency \<in> set ins \<or> high_servicing \<in> set ins"
    and "found negative_signals text \<noteq> []"
  shows "negative_signals_line (found negative_signals text) \<in> set ins \<and>
     contains warning (negative_signals_line (found negative_signals text)) \<and>
     risk_score ins = 3 \<and>
     RiskTool_run text =
       Inr (join newline ins @ newline @
            pushpin @ '' Overall Risk Rating: '' @ red_circle @ '' High Risk Investment'')"
proof -
  from scored_insights_keywords [OF assms(1)]
  obtain pre where ins: "ins = pre @ keyword_insights text" by blast
  have nl: "negative_signals_line (found negative_signals text) \<in> set ins"
    using assms(3) by (simp add: ins keyword_insights_def)
  have cw: "contains warning (negative_signals_line ws)" for ws
    unfolding negative_signals_line_def by (rule contains_prefix)
  with nl have w: "list_ex (contains warning) ins" by (auto simp: list_ex_iff)
  have "contains cross_mark high_solvency"
    unfolding high_solvency_def by (rule contains_prefix)
  moreover have "contains cross_mark high_servicing"
    unfolding high_servicing_def by (rule contains_prefix)
  ultimately have c: "list_ex (contains cross_mark) ins"
    using assms(2) by (auto simp: list_ex_iff)
  have score: "risk_score ins = 3" using w c by (simp add: risk_score_def)
  have "ins \<noteq> []" using nl by auto
  then have "RiskTool_run text = Inr (join newline ins @ newline @ rating_line ins)"
    using assms(1) by (simp add: RiskTool_run_def risk_insights_def join_snoc)
  then show ?thesis using nl cw score by (simp add: rating_line_def overall_def)
qed

text \<open>
  C9, witness: debts of 9 against assets of 10 and the word \<open>loss\<close>. The insights have
  the high solvency risk and the line of the negative signals, and no moderate
  classification.
\<close>

theorem negative_signals_count_witness:
  "scored_insights ''debt 9 assets 10 loss'' =
     Inr [scales @ '' Debt-to-Assets Ratio: 0.90'', high_solvency,
          negative_signals_line [''loss'']] \<and>
   found negative_signals ''debt 9 assets 10 loss'' = [''loss''] \<and>
   risk_score [scales @ '' Debt-to-Assets Ratio: 0.90'', high_solvency,
          negative_signals_line [''loss'']] = 3 \<and>
   RiskTool_run ''debt 9 assets 10 loss'' =
     Inr (join newline [scales @ '' Debt-to-Assets Ratio: 0.90'', high_solvency,
          negative_signals_line [''loss'']] @ newline @
          pushpin @ '' Overall Risk Rating: '' @ red_circle @ '' High Risk Investment'')"
proof -
  let ?ins = "[scales @ '' Debt-to-Assets Ratio: 0.90'', high_solvency,
          negative_signals_line [''loss'']]"
  have s: "scored_insights ''debt 9 assets 10 loss'' = Inr ?ins" by code_simp
  have f: "found negative_signals ''debt 9 assets 10 loss'' = [''loss'']" by code_simp
  have h: "high_solvency \<in> set ?ins \<or> high_servicing \<in> set ?ins" by simp
  have n: "found negative_signals ''debt 9 assets 10 loss'' \<noteq> []" using f by simp
  from negative_signals_count [OF s h n] s f show ?thesis by blast
qed

text \<open>
  C10. When the string that the investment tool returns ends with the recommendation
  to buy, its lines end with the line of the positive outlook followed by the line of
  the recommendation: the tool recommends to buy only when the positive keywords
  outnumber the negative ones, the condition under which the sentiment is the positive
  outlook, a line that differs from the neutral and from the negative one.
\<close>

theorem buy_is_positive:
  assumes "InvestmentTool_run text = Inr (pre @ recommendation_line ''Buy'')"
  shows "(\<exists>lines. InvestmentTool_run text =
            Inr (join newline (lines @ [positive_outlook, recommendation_line ''Buy'']))) \<and>
         hits negative_keywords text < hits positive_keywords text \<and>
         sentiment (hits positive_keywords text) (hits negative_keywords text) = positive_outlook \<and>
         positive_outlook \<noteq> neutral_outlook \<and> positive_outlook \<noteq> negative_outlook"
proof -
  let ?s = "sentiment (hits positive_keywords text) (hits negative_keywords text)"
  from investment_run_cases [OF assms]
  obtain rs ps i2 r where
    rec: "recommendation ps rs (hits positive_keywords text) (hits negative_keywords text) = Inr r"
    and out: "pre @ recommendation_line ''Buy'' = join newline (i2 @ [?s, recommendation_line r])"
    by blast
  from out have "pre @ recommendation_line ''Buy'' =
      (join newline (i2 @ [?s]) @ newline) @ recommendation_line r"
    by (simp add: join_snoc2)
  from line_suffix [OF this recommendation_cases [OF rec]] have r: "r = ''Buy''" by simp
  with rec have hits: "hits negative_keywords text < hits positive_keywords text"
    using recommendation_Buy by blast
  then have s: "?s = positive_outlook" by (simp add: sentiment_def)
  have "InvestmentTool_run text =
      Inr (join newline (i2 @ [positive_outlook, recommendation_line ''Buy'']))"
    using assms out r s by simp
  then have "\<exists>lines. InvestmentTool_run text =
      Inr (join newline (lines @ [positive_outlook, recommendation_line ''Buy'']))"
    by (rule exI [of _ i2])
  then show ?thesis using hits s outlooks_differ by simp
qed

text \<open>
  C10, witness: a revenue of 100 and a profit of 20 give a margin of 20, and the word
  \<open>profit\<close> is a positive keyword; the tool recommends to buy.
\<close>

theorem buy_is_positive_witness:
  "InvestmentTool_run ''revenue 100 profit 20'' =
     Inr ((bar_chart @ '' Average Revenue: $100.00'' @ newline @
           bar_chart @ '' Average Profit: $20.00'' @ newline @
           bar_chart @ '' Profit Margin: 20.00%'' @ newline @
           positive_outlook @ newline) @ recommendation_line ''Buy'') \<and>
   ((\<exists>lines. InvestmentTool_run ''revenue 100 profit 20'' =
            Inr (join newline (lines @ [positive_outlook, recommendation_line ''Buy'']))) \<and>
    hits negative_keywords ''revenue 100 profit 20'' < hits positive_keywords ''revenue 100 profit 20'' \<and>
    sentiment (hits positive_keywords ''revenue 100 profit 20'')
      (hits negative_keywords ''revenue 100 profit 20'') = positive_outlook \<and>
    positive_outlook \<noteq> neutral_outlook \<and> positive_outlook \<noteq> negative_outlook)"
proof -
  have run: "InvestmentTool_run ''revenue 100 profit 20'' =
     Inr ((bar_chart @ '' Average Revenue: $100.00'' @ newline @
           bar_chart @ '' Average Profit: $20.00'' @ newline @
           bar_chart @ '' Profit Margin: 20.00%'' @ newline @
           positive_outlook @ newline) @ recommendation_line ''Buy'')"
    by code_simp
  show ?thesis by (rule conjI [OF run buy_is_positive [OF run]])
qed

text \<open>
  C3. When the lists of revenues and of profits are both non-empty and the mean revenue
  is not zero, the margin is the mean profit divided by the mean revenue, times 100,
  and the string returned ends with the recommendation to buy exactly when the margin
  is greater than 15 and the positive keywords outnumber the negative ones. When the
  mean profit is not zero the tool returns, and its recommendation is to buy on that
  condition, else to sell when the margin is less than 5 or the negative keywords
  outnumber the positive ones, else to hold. With a margin of exactly 15 it is to sell
  when the negative keywords outnumber the positive ones and to hold otherwise.
\<close>

theorem buy_iff:
  assumes "revenues text = Inr rs" and "profits text = Inr ps"
    and "rs \<noteq> []" and "ps \<noteq> []" and "mean rs \<noteq> Inr (Finite 0)"
  shows "\<exists>avg_profit avg_revenue q m.
     mean ps = Inr avg_profit \<and> mean rs = Inr avg_revenue \<and>
     truediv avg_profit avg_revenue = Inr q \<and> m = mul q (Finite 100) \<and>
     ((\<exists>pre. InvestmentTool_run text = Inr (pre @ recommendation_line ''Buy'')) \<longleftrightarrow>
        gt m (Finite 15) \<and> hits negative_keywords text < hits positive_keywords text) \<and>
     (mean ps \<noteq> Inr (Finite 0) \<longrightarrow>
        (\<exists>pre. InvestmentTool_run text =
           Inr (pre @ recommendation_line
             (if gt m (Finite 15) \<and> hits negative_keywords text < hits positive_keywords text
              then ''Buy''
              else if lt m (Finite 5) \<or> hits positive_keywords text < hits negative_keywords text
              then ''Sell'' else ''Hold'')))) \<and>
     (m = Finite 15 \<longrightarrow>
        (\<exists>pre. InvestmentTool_run text =
           Inr (pre @ recommendation_line
             (if hits positive_keywords text < hits negative_keywords text
              then ''Sell'' else ''Hold''))))"
proof -
  let ?P = "hits positive_keywords text" and ?N = "hits negative_keywords text"
  from margin_total [OF assms(3,4,5)]
  obtain p r q where p: "mean ps = Inr p" and r: "mean rs = Inr r"
    and q: "truediv p r = Inr q" and m: "margin ps rs = Inr (mul q (Finite 100))"
    by blast
  let ?m = "mul q (Finite 100)"
  let ?r = "if gt ?m (Finite 15) \<and> ?N < ?P then ''Buy''
    else if lt ?m (Finite 5) \<or> ?P < ?N then ''Sell'' else ''Hold''"
  have rec: "recommendation ps rs ?P ?N = Inr ?r"
    using assms(3,4) m by (simp add: recommendation_def)
  have zero: "\<not> gt ?m (Finite 15) \<and> ?m \<noteq> Finite 15" if "mean ps = Inr (Finite 0)"
    using zero_profit_margin [OF that m] by auto
  have returns: "\<exists>pre. InvestmentTool_run text = Inr (pre @ recommendation_line ?r)"
    if nz: "mean ps \<noteq> Inr (Finite 0)"
  proof -
    obtain ds where ds: "debts text = Inr ds" using debts_total by blast
    obtain i1 where i1: "margin_insights rs ps [] = Inr i1"
      using margin_insights_total [OF assms(3,4)] by blast
    obtain i2 where i2: "debt_insights ds ps i1 = Inr i2"
      using debt_insights_total [OF nz] by blast
    from investment_run_shape [OF assms(1,2) ds i1 i2 rec]
    have "InvestmentTool_run text =
        Inr ((join newline (i2 @ [sentiment ?P ?N]) @ newline) @ recommendation_line ?r)"
      by (simp only: join_snoc2 append_assoc)
    then show ?thesis
      by (rule exI [of _ "join newline (i2 @ [sentiment ?P ?N]) @ newline"])
  qed
  have buy: "(\<exists>pre. InvestmentTool_run text = Inr (pre @ recommendation_line ''Buy'')) \<longleftrightarrow>
      gt ?m (Finite 15) \<and> ?N < ?P"
  proof
    assume "\<exists>pre. InvestmentTool_run text = Inr (pre @ recommendation_line ''Buy'')"
    then obtain pre where run: "InvestmentTool_run text = Inr (pre @ recommendation_line ''Buy'')"
      ..
    from investment_run_cases [OF run]
    obtain rs' ps' i2 r' where "revenues text = Inr rs'" and "profits text = Inr ps'"
      and rec': "recommendation ps' rs' ?P ?N = Inr r'"
      and out: "pre @ recommendation_line ''Buy'' =
        join newline (i2 @ [sentiment ?P ?N, recommendation_line r'])"
      by blast
    then have same: "rs' = rs" "ps' = ps" using assms(1,2) by simp_all
    from out have "pre @ recommendation_line ''Buy'' =
        (join newline (i2 @ [sentiment ?P ?N]) @ newline) @ recommendation_line r'"
      by (simp add: join_snoc2)
    from line_suffix [OF this recommendation_cases [OF rec']] have "r' = ''Buy''" by simp
    then have "?r = ''Buy''" using rec rec' same by simp
    then show "gt ?m (Finite 15) \<and> ?N < ?P" by (simp split: if_splits)
  next
    assume c: "gt ?m (Finite 15) \<and> ?N < ?P"
    then have "mean ps \<noteq> Inr (Finite 0)" using zero by blast
    from returns [OF this] c
    show "\<exists>pre. InvestmentTool_run text = Inr (pre @ recommendation_line ''Buy'')" by simp
  qed
  have all: "mean ps \<noteq> Inr (Finite 0) \<longrightarrow>
      (\<exists>pre. InvestmentTool_run text = Inr (pre @ recommendation_line ?r))"
    using returns by (rule impI)
  have fifteen: "?m = Finite 15 \<longrightarrow>
      (\<exists>pre. InvestmentTool_run text =
         Inr (pre @ recommendation_line (if ?P < ?N then ''Sell'' else ''Hold'')))"
  proof
    assume e: "?m = Finite 15"
    then have "mean ps \<noteq> Inr (Finite 0)" using zero by blast
    from returns [OF this]
    show "\<exists>pre. InvestmentTool_run text =
         Inr (pre @ recommendation_line (if ?P < ?N then ''Sell'' else ''Hold''))"
      by (simp add: e lt_def)
  qed
  have "?m = mul q (Finite 100)" by (rule refl)
  from p r q this buy all fifteen show ?thesis
    by - (rule exI [of _ p], rule exI [of _ r], rule exI [of _ q], rule exI [of _ ?m],
      intro conjI; assumption)
qed

text \<open>
  C3, witness: a revenue of 100 and a profit of 15 give a margin of exactly 15; the
  word \<open>profit\<close> is a positive keyword and there is no negative one, and the tool
  recommends to hold.
\<close>

theorem buy_iff_witness:
  "revenues ''revenue 100 profit 15'' = Inr [Finite 100] \<and>
   profits ''revenue 100 profit 15'' = Inr [Finite 15] \<and>
   margin [Finite 15] [Finite 100] = Inr (Finite 15) \<and>
   hits negative_keywords ''revenue 100 profit 15'' < hits positive_keywords ''revenue 100 profit 15'' \<and>
   (\<exists>pre. InvestmentTool_run ''revenue 100 profit 15'' = Inr (pre @ recommendation_line ''Hold''))"
proof -
  have a: "revenues ''revenue 100 profit 15'' = Inr [Finite 100]" by code_simp
  have b: "profits ''revenue 100 profit 15'' = Inr [Finite 15]" by code_simp
  have ne: "[Finite 100] \<noteq> []" "[Finite 15] \<noteq> []" by simp_all
  have mr: "mean [Finite 100] = Inr (Finite 100)" by code_simp
  have mp: "mean [Finite 15] = Inr (Finite 15)" by code_simp
  have nz: "mean [Finite 100] \<noteq> Inr (Finite 0)" using mr by simp
  have mg: "margin [Finite 15] [Finite 100] = Inr (Finite 15)" by code_simp
  have h: "hits negative_keywords ''revenue 100 profit 15'' = 0"
    "hits positive_keywords ''revenue 100 profit 15'' = 1" by code_simp+
  from buy_iff [OF a b ne nz]
  obtain avg_profit avg_revenue q m where 1: "mean [Finite 15] = Inr avg_profit"
    and 2: "mean [Finite 100] = Inr avg_revenue"
    and 3: "truediv avg_profit avg_revenue = Inr q" and 4: "m = mul q (Finite 100)"
    and 15: "m = Finite 15 \<longrightarrow>
        (\<exists>pre. InvestmentTool_run ''revenue 100 profit 15'' =
           Inr (pre @ recommendation_line
             (if hits positive_keywords ''revenue 100 profit 15''
                 < hits negative_keywords ''revenue 100 profit 15''
              then ''Sell'' else ''Hold'')))"
    by blast
  have "margin [Finite 15] [Finite 100] = Inr m"
    using 1 2 3 4 by (simp add: margin_def)
  then have "m = Finite 15" using mg by simp
  with 15 have "\<exists>pre. InvestmentTool_run ''revenue 100 profit 15'' =
      Inr (pre @ recommendation_line ''Hold'')"
    by (simp add: h)
  then show ?thesis using a b mg h by simp
qed

text \<open>
  C7. The claim: a text with no occurrence of a label word has four empty lists. The
  tools look for the labels in the text with its white space normalised: the words of
  the text joined by single spaces. The label \<open>net income\<close> has two words; a text
  that has them on two lines has no occurrence of the label, and yet the normalised text
  has one, and the amount behind it is extracted as a profit.
\<close>




end
